theory Spec2Isabelle
  imports Complex_Main "HOL-Library.Char_ord" "HOL-Library.List_Lexorder"
    "HOL-Library.Multiset"
begin

section \<open>The observation table\<close>

text \<open>
  One row of the frame returned by \<open>load_data\<close> (M5_IndividualA.py, lines 35-46).
  \<open>pd.to_datetime(..., errors="coerce")\<close> turns an unparseable date into NaT and
  \<open>pd.to_numeric(..., errors="coerce")\<close> turns a non-numeric cell into NaN; a blank
  \<open>Country\<close> or \<open>WHO_region\<close> cell is read as NaN. Every missing cell is \<open>None\<close>.
  A timestamp is an integer (its position on the time line); a metric is a rational number,
  so the rounding of float64 arithmetic is not part of the model.
\<close>

record row =
  Date_reported :: "int option"
  Country :: "string option"
  WHO_region :: "string option"
  Covid_new_hospitalizations_last_7days :: "rat option"
  Covid_new_icu_admissions_last_7days :: "rat option"
  Covid_new_hospitalizations_last_28days :: "rat option"
  Covid_new_icu_admissions_last_28days :: "rat option"

type_synonym frame = "row list"

datatype py_error = ValueError | KeyError

section \<open>The filter panel (lines 82-128)\<close>

text \<open>The two options of the time-window radio button.\<close>

datatype window = Weekly | Monthly

text \<open>Lines 95-102: the columns the chosen window selects. A column is its accessor.\<close>

definition hosp_col :: "window \<Rightarrow> row \<Rightarrow> rat option" where
  "hosp_col w = (case w of Weekly \<Rightarrow> Covid_new_hospitalizations_last_7days
                         | Monthly \<Rightarrow> Covid_new_hospitalizations_last_28days)"

definition icu_col :: "window \<Rightarrow> row \<Rightarrow> rat option" where
  "icu_col w = (case w of Weekly \<Rightarrow> Covid_new_icu_admissions_last_7days
                        | Monthly \<Rightarrow> Covid_new_icu_admissions_last_28days)"

definition window_desc :: "window \<Rightarrow> string" where
  "window_desc w = (case w of Weekly \<Rightarrow> ''last 7 days'' | Monthly \<Rightarrow> ''last 28 days'')"

text \<open>\<open>Series.min()\<close> and \<open>Series.max()\<close> skip missing values and give NaN (NaT) when
  nothing is left.\<close>

definition series_min :: "'a::linorder option list \<Rightarrow> 'a option" where
  "series_min xs = (case List.map_filter id xs of [] \<Rightarrow> None | y # ys \<Rightarrow> Some (fold min ys y))"

definition series_max :: "'a::linorder option list \<Rightarrow> 'a option" where
  "series_max xs = (case List.map_filter id xs of [] \<Rightarrow> None | y # ys \<Rightarrow> Some (fold max ys y))"

definition min_date :: "frame \<Rightarrow> int option" where
  "min_date df = series_min (map Date_reported df)"

definition max_date :: "frame \<Rightarrow> int option" where
  "max_date df = series_max (map Date_reported df)"

text \<open>
  Lines 108-113: \<open>st.date_input\<close> is given the span of the table as default value and as
  bounds. When no row has a parseable date both are NaT and the call raises; otherwise it
  returns the dates picked so far, a tuple of at most two dates within the bounds.
\<close>

definition date_input :: "int option \<Rightarrow> int option \<Rightarrow> int list \<Rightarrow> py_error + int list" where
  "date_input min_value max_value picked =
     (case (min_value, max_value) of
        (Some lo, Some hi) \<Rightarrow> Inr picked
      | _ \<Rightarrow> Inl ValueError)"

text \<open>Lines 115-118: the date widget returns a tuple; only a tuple of two dates is taken,
  anything else falls back to the span of the table.\<close>

definition select_dates :: "frame \<Rightarrow> int list \<Rightarrow> int option \<times> int option" where
  "select_dates df date_range =
     (case date_range of [s, e] \<Rightarrow> (Some s, Some e) | _ \<Rightarrow> (min_date df, max_date df))"

text \<open>A comparison of timestamps is False as soon as one side is NaT.\<close>

definition ts_ge :: "int option \<Rightarrow> int option \<Rightarrow> bool" where
  "ts_ge a b = (case (a, b) of (Some x, Some y) \<Rightarrow> x \<ge> y | _ \<Rightarrow> False)"

definition ts_le :: "int option \<Rightarrow> int option \<Rightarrow> bool" where
  "ts_le a b = (case (a, b) of (Some x, Some y) \<Rightarrow> x \<le> y | _ \<Rightarrow> False)"

text \<open>Lines 121-124: the boolean mask keeps the rows, in their order.\<close>

definition df_global :: "frame \<Rightarrow> int option \<Rightarrow> int option \<Rightarrow> frame" where
  "df_global df start_date end_date =
     filter (\<lambda>r. ts_ge (Date_reported r) start_date \<and> ts_le (Date_reported r) end_date) df"

section \<open>The dataframe operations the script calls\<close>

text \<open>\<open>Series.sum()\<close>: missing values are skipped, the sum of nothing is 0.\<close>

definition sum_skipna :: "('r \<Rightarrow> rat option) \<Rightarrow> 'r list \<Rightarrow> rat" where
  "sum_skipna col df = sum_list (List.map_filter col df)"

text \<open>\<open>groupby(key)\<close> with its defaults \<open>sort=True, dropna=True\<close>: one group per distinct
  key that is present, the groups in ascending key order; rows whose key is missing belong
  to no group.\<close>

definition groupby_keys :: "('r \<Rightarrow> 'k::linorder option) \<Rightarrow> 'r list \<Rightarrow> 'k list" where
  "groupby_keys key df = sort (remdups (List.map_filter key df))"

definition get_group :: "('r \<Rightarrow> 'k option) \<Rightarrow> 'k \<Rightarrow> 'r list \<Rightarrow> 'r list" where
  "get_group key k df = filter (\<lambda>r. key r = Some k) df"

text \<open>
  \<open>sort_values\<close> is called with its default \<open>kind="quicksort"\<close> (lines 209, 399, 409, 452),
  numpy's \<open>argsort\<close>: given the keys it returns their positions in an order that sorts them,
  and which of two equal keys comes first is not specified. A sort routine is therefore any
  function with that property; \<open>argsort qs keys\<close> applies one.
\<close>

definition is_argsort :: "('k::linorder list \<Rightarrow> nat list) \<Rightarrow> bool" where
  "is_argsort f \<longleftrightarrow>
     (\<forall>keys. distinct (f keys) \<and> set (f keys) = {..<length keys}
             \<and> sorted (map (\<lambda>i. keys ! i) (f keys)))"

text \<open>Two such routines: one leaves equal keys in their order (insertion sort, what numpy
  does on short arrays), the other reverses them.\<close>

definition insertion_argsort :: "'k::linorder list \<Rightarrow> nat list" where
  "insertion_argsort keys = sort_key (\<lambda>i. keys ! i) [0..<length keys]"

definition reversing_argsort :: "'k::linorder list \<Rightarrow> nat list" where
  "reversing_argsort keys = sort_key (\<lambda>i. keys ! i) (rev [0..<length keys])"

typedef (overloaded) ('k::linorder) quicksort = "{f :: 'k list \<Rightarrow> nat list. is_argsort f}"
  morphisms argsort Abs_quicksort
proof
  show "insertion_argsort \<in> {f :: 'k list \<Rightarrow> nat list. is_argsort f}"
    by (auto simp: is_argsort_def insertion_argsort_def)
qed

setup_lifting type_definition_quicksort

lift_definition stable_sort :: "'k::linorder quicksort" is insertion_argsort
  by (auto simp: is_argsort_def insertion_argsort_def)

lift_definition reversing_sort :: "'k::linorder quicksort" is reversing_argsort
  by (auto simp: is_argsort_def reversing_argsort_def)

text \<open>The script sorts float64 columns (the totals) and datetime64 columns (the dates).\<close>

record numpy =
  sort_float64 :: "rat quicksort"
  sort_datetime64 :: "int quicksort"

text \<open>
  \<open>sort_values(key, ascending)\<close> as pandas' \<open>nargsort\<close> computes it: the rows whose key is
  missing go last; the others are sorted through \<open>argsort\<close>, and for a descending sort they
  are reversed, sorted ascending and reversed again.
\<close>

definition sort_values ::
    "'k::linorder quicksort \<Rightarrow> ('r \<Rightarrow> 'k option) \<Rightarrow> bool \<Rightarrow> 'r list \<Rightarrow> 'r list" where
  "sort_values qs key ascending df =
     (let non_nans = filter (\<lambda>r. key r \<noteq> None) df;
          nans = filter (\<lambda>r. key r = None) df;
          items = (if ascending then non_nans else rev non_nans);
          indexer = argsort qs (map (\<lambda>r. the (key r)) items);
          taken = map (\<lambda>i. items ! i) indexer
      in (if ascending then taken else rev taken) @ nans)"

section \<open>The daily series and its peaks (lines 144-151, 205-241)\<close>

text \<open>A row of \<open>df_ts\<close>: with \<open>as_index=False\<close> the frame gets the labels 0, 1, ... and
  a sort moves each label with its row.\<close>

record ts_row =
  ts_index :: nat
  ts_Date_reported :: int
  ts_hosp :: rat
  ts_icu :: rat

definition groupby_date_sum :: "window \<Rightarrow> frame \<Rightarrow> ts_row list" where
  "groupby_date_sum w g =
     map (\<lambda>(i, d). \<lparr>ts_index = i, ts_Date_reported = d,
                     ts_hosp = sum_skipna (hosp_col w) (get_group Date_reported d g),
                     ts_icu = sum_skipna (icu_col w) (get_group Date_reported d g)\<rparr>)
         (enumerate 0 (groupby_keys Date_reported g))"

definition df_ts :: "numpy \<Rightarrow> window \<Rightarrow> frame \<Rightarrow> ts_row list" where
  "df_ts np w g =
     sort_values (sort_datetime64 np) (\<lambda>t. Some (ts_Date_reported t)) True (groupby_date_sum w g)"

text \<open>\<open>Series.idxmax()\<close>: the label of the first row that holds the maximum; it raises
  ValueError on an empty series. The columns of \<open>df_ts\<close> are sums, never missing.\<close>

definition idxmax :: "(ts_row \<Rightarrow> rat) \<Rightarrow> ts_row list \<Rightarrow> py_error + nat" where
  "idxmax col ts =
     (case ts of [] \<Rightarrow> Inl ValueError
      | t # rest \<Rightarrow>
          Inr (fst (fold (\<lambda>r (i, v). if col r > v then (ts_index r, col r) else (i, v))
                         rest (ts_index t, col t))))"

text \<open>\<open>df.loc[label, "Date_reported"]\<close>: KeyError when no row has the label.\<close>

definition loc_date :: "ts_row list \<Rightarrow> nat \<Rightarrow> py_error + int" where
  "loc_date ts l = (case find (\<lambda>t. ts_index t = l) ts of
                      None \<Rightarrow> Inl KeyError | Some t \<Rightarrow> Inr (ts_Date_reported t))"

definition peak_value :: "(ts_row \<Rightarrow> rat) \<Rightarrow> ts_row list \<Rightarrow> rat option" where
  "peak_value col ts = series_max (map (\<lambda>t. Some (col t)) ts)"

definition peak_date :: "(ts_row \<Rightarrow> rat) \<Rightarrow> ts_row list \<Rightarrow> py_error + int" where
  "peak_date col ts = (case idxmax col ts of Inl e \<Rightarrow> Inl e | Inr l \<Rightarrow> loc_date ts l)"

text \<open>Lines 138-151: the four figures of the insight cards.\<close>

record cards =
  total_hosp_hist :: rat
  total_icu_hist :: rat
  peak_hosp :: "rat option"
  peak_icu :: "rat option"

definition insight_cards :: "window \<Rightarrow> frame \<Rightarrow> cards" where
  "insight_cards w g =
     \<lparr>total_hosp_hist = sum_skipna Covid_new_hospitalizations_last_7days g,
      total_icu_hist = sum_skipna Covid_new_icu_admissions_last_7days g,
      peak_hosp = peak_value ts_hosp (groupby_date_sum w g),
      peak_icu = peak_value ts_icu (groupby_date_sum w g)\<rparr>"

text \<open>Lines 202-258: the series of the global chart and its two peak markers.\<close>

record overview =
  series :: "ts_row list"
  hosp_peak_value :: "rat option"
  hosp_peak_date :: int
  icu_peak_value :: "rat option"
  icu_peak_date :: int

definition tab_overview :: "numpy \<Rightarrow> window \<Rightarrow> frame \<Rightarrow> py_error + overview" where
  "tab_overview np w g =
     (let ts = df_ts np w g in
      case peak_date ts_hosp ts of Inl e \<Rightarrow> Inl e
      | Inr hpd \<Rightarrow>
         (case peak_date ts_icu ts of Inl e \<Rightarrow> Inl e
          | Inr ipd \<Rightarrow>
             Inr \<lparr>series = ts,
                  hosp_peak_value = peak_value ts_hosp ts, hosp_peak_date = hpd,
                  icu_peak_value = peak_value ts_icu ts, icu_peak_date = ipd\<rparr>))"

section \<open>Country trends (lines 335-424)\<close>

datatype view_mode = Top5_globally | Top5_AMR | Top5_EUR | Top5_AFR | Top5_EMR | Top5_SEAR | Top5_WPR

datatype metric_choice = Hospitalizations | ICU_admissions

definition y_col :: "window \<Rightarrow> metric_choice \<Rightarrow> row \<Rightarrow> rat option" where
  "y_col w m = (case m of Hospitalizations \<Rightarrow> hosp_col w | ICU_admissions \<Rightarrow> icu_col w)"

definition region_map :: "view_mode \<Rightarrow> string option" where
  "region_map v = (case v of Top5_globally \<Rightarrow> None | Top5_AMR \<Rightarrow> Some ''AMR''
     | Top5_EUR \<Rightarrow> Some ''EUR'' | Top5_AFR \<Rightarrow> Some ''AFR'' | Top5_EMR \<Rightarrow> Some ''EMR''
     | Top5_SEAR \<Rightarrow> Some ''SEAR'' | Top5_WPR \<Rightarrow> Some ''WPR'')"

definition df_scope :: "string option \<Rightarrow> frame \<Rightarrow> frame" where
  "df_scope target_region g =
     (case target_region of None \<Rightarrow> g
      | Some t \<Rightarrow> filter (\<lambda>r. WHO_region r = Some t) g)"

record rank_row =
  rank_Country :: string
  Total_hosp :: rat

definition groupby_country_sum :: "frame \<Rightarrow> rank_row list" where
  "groupby_country_sum sc =
     map (\<lambda>c. \<lparr>rank_Country = c,
               Total_hosp = sum_skipna Covid_new_hospitalizations_last_7days
                              (get_group Country c sc)\<rparr>)
         (groupby_keys Country sc)"

definition df_rank :: "numpy \<Rightarrow> frame \<Rightarrow> rank_row list" where
  "df_rank np sc =
     sort_values (sort_float64 np) (\<lambda>r. Some (Total_hosp r)) False (groupby_country_sum sc)"

definition top_countries :: "numpy \<Rightarrow> frame \<Rightarrow> string list" where
  "top_countries np sc = take 5 (map rank_Country (df_rank np sc))"

definition df_country_ts :: "numpy \<Rightarrow> frame \<Rightarrow> frame" where
  "df_country_ts np sc =
     sort_values (sort_datetime64 np) Date_reported True
       (filter (\<lambda>r. case Country r of None \<Rightarrow> False
                              | Some c \<Rightarrow> c \<in> set (top_countries np sc)) sc)"

text \<open>What the chart column shows: the warning of line 391, the warning of line 405, or
  the line chart of the top countries with the chosen metric on the y axis.\<close>

datatype country_view =
    Region_warning
  | Countries_warning
  | Country_chart "string list" "(row \<times> rat option) list"

definition tab_country ::
    "numpy \<Rightarrow> window \<Rightarrow> view_mode \<Rightarrow> metric_choice \<Rightarrow> frame \<Rightarrow> country_view" where
  "tab_country np w v m g =
     (let sc = df_scope (region_map v) g in
      if sc = [] then Region_warning
      else if top_countries np sc = [] then Countries_warning
      else Country_chart (top_countries np sc)
             (map (\<lambda>r. (r, y_col w m r)) (df_country_ts np sc)))"

section \<open>ICU share by WHO region (lines 428-452)\<close>

record reg_row =
  reg_WHO_region :: string
  reg_Total_hosp :: rat
  reg_Total_icu :: rat

record reg_pct_row = reg_row +
  ICU_pct :: rat

definition groupby_region_sum :: "frame \<Rightarrow> reg_row list" where
  "groupby_region_sum g =
     map (\<lambda>k. \<lparr>reg_WHO_region = k,
               reg_Total_hosp = sum_skipna Covid_new_hospitalizations_last_7days
                                  (get_group WHO_region k g),
               reg_Total_icu = sum_skipna Covid_new_icu_admissions_last_7days
                                 (get_group WHO_region k g)\<rparr>)
         (groupby_keys WHO_region g)"

definition df_reg :: "numpy \<Rightarrow> frame \<Rightarrow> reg_pct_row list" where
  "df_reg np g =
     sort_values (sort_float64 np) (\<lambda>r. Some (reg_Total_hosp r)) False
       (map (\<lambda>r. \<lparr>reg_WHO_region = reg_WHO_region r, reg_Total_hosp = reg_Total_hosp r,
                  reg_Total_icu = reg_Total_icu r,
                  ICU_pct = (reg_Total_icu r / reg_Total_hosp r) * 100\<rparr>)
            (filter (\<lambda>r. reg_Total_hosp r > 0) (groupby_region_sum g)))"

section \<open>The script, top to bottom\<close>

record page =
  page_cards :: cards
  page_overview :: overview
  page_country :: country_view
  page_regions :: "reg_pct_row list"

text \<open>\<open>Stopped\<close>: the warning of line 127 followed by \<open>st.stop()\<close>; nothing below it runs.
  \<open>Raised\<close>: an exception ends the run. \<open>Rendered\<close>: the script reached its end.
  \<open>picked\<close> is what the user has picked in the date widget.\<close>

datatype outcome = Stopped | Raised py_error | Rendered page

definition run ::
    "numpy \<Rightarrow> window \<Rightarrow> int list \<Rightarrow> view_mode \<Rightarrow> metric_choice \<Rightarrow> frame \<Rightarrow> outcome" where
  "run np w picked v m df =
     (case date_input (min_date df) (max_date df) picked of
        Inl e \<Rightarrow> Raised e
      | Inr date_range \<Rightarrow>
         (let (start_date, end_date) = select_dates df date_range;
              g = df_global df start_date end_date
          in if g = [] then Stopped
             else (case tab_overview np w g of
                     Inl e \<Rightarrow> Raised e
                   | Inr ov \<Rightarrow>
                       Rendered \<lparr>page_cards = insight_cards w g, page_overview = ov,
                                 page_country = tab_country np w v m g,
                                 page_regions = df_reg np g\<rparr>)))"

section \<open>Example tables\<close>

definition mk_row :: "int option \<Rightarrow> string option \<Rightarrow> string option
    \<Rightarrow> rat option \<Rightarrow> rat option \<Rightarrow> rat option \<Rightarrow> rat option \<Rightarrow> row" where
  "mk_row d c r h7 i7 h28 i28 =
     \<lparr>Date_reported = d, Country = c, WHO_region = r,
      Covid_new_hospitalizations_last_7days = h7, Covid_new_icu_admissions_last_7days = i7,
      Covid_new_hospitalizations_last_28days = h28, Covid_new_icu_admissions_last_28days = i28\<rparr>"

text \<open>Five rows: two countries on day 1 (one in a region outside the six codes), a row whose
  date did not parse, a row without region on day 8, a row without country on day 9.\<close>

definition example_table :: frame where
  "example_table =
     [mk_row (Some 1) (Some ''B'') (Some ''EUR'') (Some 5) (Some 1) (Some 20) None,
      mk_row (Some 1) (Some ''A'') (Some ''OTHER'') (Some 5) None (Some 3) (Some 2),
      mk_row None (Some ''A'') (Some ''EUR'') (Some 100) (Some 1) (Some 1) (Some 1),
      mk_row (Some 8) (Some ''A'') None (Some 7) (Some 9) (Some 1) (Some 4),
      mk_row (Some 9) None (Some ''AMR'') None (Some 2) None (Some 4)]"

text \<open>One country on three days given out of date order, the two highest daily
  hospitalization sums equal, and a second country on day 2.\<close>

definition peak_table :: frame where
  "peak_table =
     [mk_row (Some 3) (Some ''X'') (Some ''EUR'') (Some 4) (Some 2) None None,
      mk_row (Some 2) (Some ''X'') (Some ''EUR'') (Some 6) (Some 1) None None,
      mk_row (Some 1) (Some ''X'') (Some ''EUR'') (Some 9) None None None,
      mk_row (Some 2) (Some ''Y'') (Some ''WPR'') (Some 3) (Some 1) None None]"

text \<open>Three countries; B is seen first, A and B have the same 7-day hospitalization total.\<close>

definition tie_table :: frame where
  "tie_table =
     [mk_row (Some 1) (Some ''B'') (Some ''EUR'') (Some 5) (Some 1) None None,
      mk_row (Some 1) (Some ''A'') (Some ''EUR'') (Some 2) (Some 1) None None,
      mk_row (Some 2) (Some ''A'') (Some ''EUR'') (Some 3) (Some 1) None None,
      mk_row (Some 2) (Some ''C'') (Some ''EUR'') (Some 8) (Some 1) None None]"

text \<open>Five regions: EUR, AMR with more ICU admissions than hospitalizations, AFR with a
  zero hospitalization total, a region value outside the six codes, and a missing region.\<close>

definition region_table :: frame where
  "region_table =
     [mk_row (Some 1) (Some ''F'') (Some ''EUR'') (Some 200) (Some 50) None None,
      mk_row (Some 1) (Some ''U'') (Some ''AMR'') (Some 4) (Some 9) None None,
      mk_row (Some 1) (Some ''K'') (Some ''AFR'') (Some 0) (Some 3) None None,
      mk_row (Some 2) (Some ''Z'') (Some ''OTHER'') (Some 10) (Some 1) None None,
      mk_row (Some 2) (Some ''Q'') None (Some 7) (Some 7) None None]"

text \<open>Six countries on one day, with totals 9, 7, 7, 4, 3 and 1.\<close>

definition six_table :: frame where
  "six_table =
     [mk_row (Some 1) (Some ''F'') (Some ''EUR'') (Some 1) None (Some 90) None,
      mk_row (Some 1) (Some ''E'') (Some ''EUR'') (Some 3) None (Some 80) None,
      mk_row (Some 1) (Some ''D'') (Some ''EUR'') (Some 7) None (Some 70) None,
      mk_row (Some 1) (Some ''C'') (Some ''EUR'') (Some 4) None (Some 60) None,
      mk_row (Some 1) (Some ''B'') (Some ''EUR'') (Some 7) None (Some 50) None,
      mk_row (Some 1) (Some ''A'') (Some ''EUR'') (Some 9) None (Some 40) None]"

text \<open>A table in which no date parsed.\<close>

definition no_date_table :: frame where
  "no_date_table =
     [mk_row None (Some ''A'') (Some ''EUR'') (Some 100) (Some 1) (Some 1) (Some 1)]"

text \<open>numpy with the order-keeping routine, and numpy with the order-reversing one.\<close>

definition stable_np :: numpy where
  "stable_np = \<lparr>sort_float64 = stable_sort, sort_datetime64 = stable_sort\<rparr>"

definition reversing_np :: numpy where
  "reversing_np = \<lparr>sort_float64 = reversing_sort, sort_datetime64 = reversing_sort\<rparr>"

section \<open>The date filter\<close>

lemma ts_ge_Some: "ts_ge a (Some s) \<longleftrightarrow> (\<exists>d. a = Some d \<and> s \<le> d)"
  by (cases a) (simp_all add: ts_ge_def)

lemma ts_le_Some: "ts_le a (Some e) \<longleftrightarrow> (\<exists>d. a = Some d \<and> d \<le> e)"
  by (cases a) (simp_all add: ts_le_def)

lemma df_global_dates:
  "r \<in> set (df_global df s e) \<Longrightarrow> \<exists>d. Date_reported r = Some d"
  by (cases "Date_reported r"; cases s) (auto simp: df_global_def ts_ge_def)

text \<open>
  C1. A row of the table is in \<open>df_global\<close> for the chosen dates \<open>s\<close> and \<open>e\<close> exactly when
  its date is present and lies between them, both ends included; a row whose date is missing
  is in no \<open>df_global\<close>, whatever the two bounds are.
\<close>

theorem date_filter_correct:
  "(r \<in> set (df_global df (Some s) (Some e))
      \<longleftrightarrow> r \<in> set df \<and> (\<exists>d. Date_reported r = Some d \<and> s \<le> d \<and> d \<le> e))
 \<and> (Date_reported r = None \<longrightarrow> r \<notin> set (df_global df start_date end_date))"
proof -
  have "Date_reported r = None \<longrightarrow> r \<notin> set (df_global df start_date end_date)"
    using df_global_dates [of r df start_date end_date] by auto
  moreover have "r \<in> set (df_global df (Some s) (Some e))
      \<longleftrightarrow> r \<in> set df \<and> (\<exists>d. Date_reported r = Some d \<and> s \<le> d \<and> d \<le> e)"
    by (auto simp: df_global_def ts_ge_Some ts_le_Some)
  ultimately show ?thesis by blast
qed

theorem date_filter_correct_witness:
  "Date_reported (mk_row None (Some ''A'') (Some ''EUR'') (Some 100) (Some 1) (Some 1) (Some 1)) = None
 \<and> mk_row None (Some ''A'') (Some ''EUR'') (Some 100) (Some 1) (Some 1) (Some 1)
     \<in> set example_table
 \<and> mk_row None (Some ''A'') (Some ''EUR'') (Some 100) (Some 1) (Some 1) (Some 1)
     \<notin> set (df_global example_table (Some 1) (Some 8))"
  using date_filter_correct
    [where r = "mk_row None (Some ''A'') (Some ''EUR'') (Some 100) (Some 1) (Some 1) (Some 1)"
       and df = example_table and start_date = "Some 1" and end_date = "Some 8"
       and s = 1 and e = 8]
  by (simp add: example_table_def mk_row_def)

section \<open>Grouping and summing\<close>

lemma sum_skipna_present:
  "sum_skipna col df = (\<Sum>r\<leftarrow>filter (\<lambda>r. col r \<noteq> None) df. the (col r))"
  by (simp add: sum_skipna_def List.map_filter_def comp_def)

lemma set_map_filter_key:
  "set (List.map_filter key df) = {k. \<exists>r\<in>set df. key r = Some k}"
  by (force simp: List.map_filter_def image_iff)

lemma set_groupby_keys:
  "set (groupby_keys key df) = {k. \<exists>r\<in>set df. key r = Some k}"
  by (simp add: groupby_keys_def set_map_filter_key)

lemma sorted_groupby_keys: "sorted (groupby_keys key df)"
  by (simp add: groupby_keys_def)

lemma distinct_groupby_keys: "distinct (groupby_keys key df)"
  by (simp add: groupby_keys_def)

lemma strict_groupby_keys: "sorted_wrt (<) (groupby_keys key df)"
  by (simp add: strict_sorted_iff sorted_groupby_keys distinct_groupby_keys)

lemma sum_skipna_get_group:
  "sum_skipna col (get_group key k df)
   = (\<Sum>r\<leftarrow>filter (\<lambda>r. key r = Some k \<and> col r \<noteq> None) df. the (col r))"
  by (simp add: sum_skipna_present get_group_def conj_commute)

section \<open>Sorting\<close>

lemma argsort_is_argsort: "is_argsort (argsort qs)"
  using argsort [of qs] by simp

lemma distinct_argsort: "distinct (argsort qs keys)"
  using argsort_is_argsort [of qs] by (simp add: is_argsort_def)

lemma set_argsort: "set (argsort qs keys) = {..<length keys}"
  using argsort_is_argsort [of qs] by (simp add: is_argsort_def)

lemma sorted_argsort: "sorted (map (\<lambda>i. keys ! i) (argsort qs keys))"
  using argsort_is_argsort [of qs] by (simp add: is_argsort_def)

lemma mset_argsort: "mset (argsort qs keys) = mset [0..<length keys]"
proof -
  have "set (argsort qs keys) = set [0..<length keys]"
    by (simp add: set_argsort atLeast0LessThan)
  then show ?thesis
    by (simp only: set_eq_iff_mset_eq_distinct [OF distinct_argsort distinct_upt, symmetric])
qed

lemma mset_take_argsort:
  assumes "length keys = length items"
  shows "mset (map (\<lambda>i. items ! i) (argsort qs keys)) = mset items"
proof -
  have "mset (map (\<lambda>i. items ! i) (argsort qs keys))
        = image_mset (\<lambda>i. items ! i) (mset (argsort qs keys))"
    by simp
  also have "\<dots> = image_mset (\<lambda>i. items ! i) (mset [0..<length items])"
    by (simp only: mset_argsort assms)
  also have "\<dots> = mset (map (\<lambda>i. items ! i) [0..<length items])"
    by simp
  also have "\<dots> = mset items"
    by (simp only: map_nth)
  finally show ?thesis .
qed

lemma keys_take_argsort:
  "map f (map (\<lambda>i. items ! i) (argsort qs (map f items)))
   = map (\<lambda>i. map f items ! i) (argsort qs (map f items))"
proof -
  have "\<forall>i\<in>set (argsort qs (map f items)). i < length items"
    by (simp add: set_argsort)
  then show ?thesis by simp
qed

lemma sorted_take_argsort:
  "sorted (map f (map (\<lambda>i. items ! i) (argsort qs (map f items))))"
  by (simp only: keys_take_argsort sorted_argsort)

lemma sort_values_Some_asc:
  "sort_values qs (\<lambda>t. Some (f t)) True xs = map (\<lambda>i. xs ! i) (argsort qs (map f xs))"
  by (simp add: sort_values_def)

lemma sort_values_Some_desc:
  "sort_values qs (\<lambda>t. Some (f t)) False xs
   = rev (map (\<lambda>i. rev xs ! i) (argsort qs (map f (rev xs))))"
  by (simp add: sort_values_def Let_def)

lemma mset_sort_values_Some:
  "mset (sort_values qs (\<lambda>t. Some (f t)) asc xs) = mset xs"
proof (cases asc)
  case True
  have "mset (map (\<lambda>i. xs ! i) (argsort qs (map f xs))) = mset xs"
    by (rule mset_take_argsort) simp
  with True show ?thesis
    by (simp only: sort_values_Some_asc)
next
  case False
  have "mset (map (\<lambda>i. rev xs ! i) (argsort qs (map f (rev xs)))) = mset (rev xs)"
    by (rule mset_take_argsort) simp
  with False show ?thesis
    by (simp only: sort_values_Some_desc mset_rev)
qed

lemma set_sort_values_Some:
  "set (sort_values qs (\<lambda>t. Some (f t)) asc xs) = set xs"
  using mset_sort_values_Some [of qs f asc xs] by (rule mset_eq_setD)

lemma length_sort_values_Some:
  "length (sort_values qs (\<lambda>t. Some (f t)) asc xs) = length xs"
  using mset_sort_values_Some [of qs f asc xs] by (rule mset_eq_length)

lemma distinct_map_sort_values_Some:
  "distinct (map h (sort_values qs (\<lambda>t. Some (f t)) asc xs)) \<longleftrightarrow> distinct (map h xs)"
proof -
  have "mset (map h (sort_values qs (\<lambda>t. Some (f t)) asc xs)) = mset (map h xs)"
    by (simp add: mset_sort_values_Some)
  then show ?thesis by (rule mset_eq_imp_distinct_iff)
qed

lemma sorted_sort_values_asc:
  "sorted (map f (sort_values qs (\<lambda>t. Some (f t)) True xs))"
  by (simp only: sort_values_Some_asc sorted_take_argsort)

lemma sorted_sort_values_desc:
  fixes f :: "'a \<Rightarrow> 'k::linorder"
  shows "sorted_wrt (\<ge>) (map f (sort_values qs (\<lambda>t. Some (f t)) False xs))"
proof -
  have "sorted (map f (map (\<lambda>i. rev xs ! i) (argsort qs (map f (rev xs)))))"
    by (rule sorted_take_argsort)
  then have "sorted_wrt (\<ge>) (rev (map f (map (\<lambda>i. rev xs ! i) (argsort qs (map f (rev xs))))))"
    by (simp add: sorted_wrt_rev)
  then show ?thesis
    by (simp only: sort_values_Some_desc rev_map)
qed

lemma sort_values_strict_id:
  assumes "sorted_wrt (<) (map f xs)"
  shows "sort_values qs (\<lambda>t. Some (f t)) True xs = xs"
proof -
  let ?ys = "sort_values qs (\<lambda>t. Some (f t)) True xs"
  from assms have sx: "sorted (map f xs)" and dx: "distinct (map f xs)"
    by (simp_all add: strict_sorted_iff)
  have dy: "distinct (map f ?ys)"
    by (simp add: distinct_map_sort_values_Some dx)
  have "set (map f ?ys) = set (map f xs)"
    by (simp add: set_sort_values_Some)
  with sorted_sort_values_asc [of f qs xs] dy sx dx have keys: "map f ?ys = map f xs"
    by (rule sorted_distinct_set_unique)
  from dx have "inj_on f (set xs)" by (simp add: distinct_map)
  then have "inj_on f (set ?ys \<union> set xs)" by (simp add: set_sort_values_Some)
  with keys show ?thesis by (rule map_inj_on)
qed

section \<open>The daily series\<close>

lemma dates_groupby_date_sum:
  "map ts_Date_reported (groupby_date_sum w g) = groupby_keys Date_reported g"
proof -
  have "map ts_Date_reported (groupby_date_sum w g)
        = map snd (enumerate 0 (groupby_keys Date_reported g))"
    by (simp add: groupby_date_sum_def case_prod_unfold comp_def)
  then show ?thesis by simp
qed

lemma labels_groupby_date_sum:
  "map ts_index (groupby_date_sum w g) = [0..<length (groupby_keys Date_reported g)]"
proof -
  have "map ts_index (groupby_date_sum w g)
        = map fst (enumerate 0 (groupby_keys Date_reported g))"
    by (simp add: groupby_date_sum_def case_prod_unfold comp_def)
  then show ?thesis by simp
qed

lemma df_ts_already_sorted: "df_ts np w g = groupby_date_sum w g"
  unfolding df_ts_def
  by (rule sort_values_strict_id) (simp only: dates_groupby_date_sum strict_groupby_keys)

lemma sums_groupby_date_sum:
  "t \<in> set (groupby_date_sum w g) \<Longrightarrow>
   ts_hosp t = sum_skipna (hosp_col w) (get_group Date_reported (ts_Date_reported t) g)
 \<and> ts_icu t = sum_skipna (icu_col w) (get_group Date_reported (ts_Date_reported t) g)"
  by (auto simp: groupby_date_sum_def)

text \<open>
  C3. The daily series has one row per date present in the subset (its dates are strictly
  ascending and are exactly the dates that occur), the hospitalization and ICU value of a
  row are the sums of the chosen window's columns over the rows of that date whose value is
  present, and the unsorted frame of lines 144-148 is the same series.
\<close>

theorem daily_totals:
  "sorted_wrt (<) (map ts_Date_reported (df_ts np w g))
 \<and> set (map ts_Date_reported (df_ts np w g)) = {d. \<exists>r\<in>set g. Date_reported r = Some d}
 \<and> (\<forall>t\<in>set (df_ts np w g).
      ts_hosp t = (\<Sum>r\<leftarrow>filter (\<lambda>r. Date_reported r = Some (ts_Date_reported t)
                                   \<and> hosp_col w r \<noteq> None) g. the (hosp_col w r))
    \<and> ts_icu t = (\<Sum>r\<leftarrow>filter (\<lambda>r. Date_reported r = Some (ts_Date_reported t)
                                   \<and> icu_col w r \<noteq> None) g. the (icu_col w r)))
 \<and> groupby_date_sum w g = df_ts np w g"
proof -
  have a: "sorted_wrt (<) (map ts_Date_reported (df_ts np w g))"
    by (simp add: df_ts_already_sorted dates_groupby_date_sum strict_groupby_keys)
  have b: "set (map ts_Date_reported (df_ts np w g)) = {d. \<exists>r\<in>set g. Date_reported r = Some d}"
    by (simp only: df_ts_already_sorted dates_groupby_date_sum set_groupby_keys)
  have c: "\<forall>t\<in>set (df_ts np w g).
      ts_hosp t = (\<Sum>r\<leftarrow>filter (\<lambda>r. Date_reported r = Some (ts_Date_reported t)
                                   \<and> hosp_col w r \<noteq> None) g. the (hosp_col w r))
    \<and> ts_icu t = (\<Sum>r\<leftarrow>filter (\<lambda>r. Date_reported r = Some (ts_Date_reported t)
                                   \<and> icu_col w r \<noteq> None) g. the (icu_col w r))"
    using sums_groupby_date_sum [of _ w g]
    by (simp add: df_ts_already_sorted sum_skipna_get_group)
  from a b c show ?thesis by (simp add: df_ts_already_sorted)
qed

theorem daily_totals_witness:
  "df_ts stable_np Monthly (df_global example_table (Some 1) (Some 9)) =
     [\<lparr>ts_index = 0, ts_Date_reported = 1, ts_hosp = 23, ts_icu = 2\<rparr>,
      \<lparr>ts_index = 1, ts_Date_reported = 8, ts_hosp = 1, ts_icu = 4\<rparr>,
      \<lparr>ts_index = 2, ts_Date_reported = 9, ts_hosp = 0, ts_icu = 4\<rparr>]
 \<and> (\<Sum>r\<leftarrow>filter (\<lambda>r. Date_reported r = Some 1 \<and> hosp_col Monthly r \<noteq> None)
               (df_global example_table (Some 1) (Some 9)). the (hosp_col Monthly r)) = 23"
proof -
  have e: "df_ts stable_np Monthly (df_global example_table (Some 1) (Some 9)) =
     [\<lparr>ts_index = 0, ts_Date_reported = 1, ts_hosp = 23, ts_icu = 2\<rparr>,
      \<lparr>ts_index = 1, ts_Date_reported = 8, ts_hosp = 1, ts_icu = 4\<rparr>,
      \<lparr>ts_index = 2, ts_Date_reported = 9, ts_hosp = 0, ts_icu = 4\<rparr>]"
    by code_simp
  from daily_totals [of stable_np Monthly "df_global example_table (Some 1) (Some 9)"]
  have "\<forall>t\<in>set (df_ts stable_np Monthly (df_global example_table (Some 1) (Some 9))).
      ts_hosp t = (\<Sum>r\<leftarrow>filter (\<lambda>r. Date_reported r = Some (ts_Date_reported t)
                                   \<and> hosp_col Monthly r \<noteq> None)
                        (df_global example_table (Some 1) (Some 9)). the (hosp_col Monthly r))"
    by blast
  with e show ?thesis by simp
qed

section \<open>Peaks\<close>

lemma find_snoc:
  "find P (xs @ [x]) = (case find P xs of None \<Rightarrow> (if P x then Some x else None) | Some y \<Rightarrow> Some y)"
  by (induction xs) auto

lemma series_max_Some:
  "ts \<noteq> [] \<Longrightarrow> series_max (map (\<lambda>t. Some (col t)) ts) = Some (Max (col ` set ts))"
proof -
  assume ne: "ts \<noteq> []"
  have mf: "\<And>xs. List.map_filter id (map (\<lambda>t. Some (col t)) xs) = map col xs"
    by (simp add: List.map_filter_def comp_def)
  from ne obtain t rest where ts: "ts = t # rest" by (cases ts) auto
  have "fold max (map col rest) (col t) = Max (set (col t # map col rest))"
    by (rule Max.set_eq_fold [symmetric])
  then show ?thesis
    by (simp add: series_max_def mf ts)
qed

lemma fold_first_max:
  fixes col :: "ts_row \<Rightarrow> rat"
  shows "\<exists>t'. fold (\<lambda>r (i, v). if col r > v then (ts_index r, col r) else (i, v)) rs
              (ts_index t, col t) = (ts_index t', col t')
        \<and> find (\<lambda>x. col x = col t') (t # rs) = Some t'
        \<and> (\<forall>x\<in>set (t # rs). col x \<le> col t')"
proof (induction rs rule: rev_induct)
  case Nil
  show ?case by (rule exI [of _ t]) simp
next
  case (snoc x rs)
  then obtain t' where
    f: "fold (\<lambda>r (i, v). if col r > v then (ts_index r, col r) else (i, v)) rs
              (ts_index t, col t) = (ts_index t', col t')"
    and fi: "find (\<lambda>y. col y = col t') (t # rs) = Some t'"
    and mx: "\<forall>y\<in>set (t # rs). col y \<le> col t'"
    by blast
  show ?case
  proof (cases "col x > col t'")
    case True
    have none: "find (\<lambda>y. col y = col x) (t # rs) = None"
      using mx True by (force simp: find_None_iff)
    have "find (\<lambda>y. col y = col x) ((t # rs) @ [x]) = Some x"
      by (simp only: find_snoc none) simp
    moreover have "\<forall>y\<in>set (t # rs @ [x]). col y \<le> col x"
      using mx True by force
    ultimately show ?thesis
      using f True by (intro exI [of _ x]) simp
  next
    case False
    have "find (\<lambda>y. col y = col t') ((t # rs) @ [x]) = Some t'"
      by (simp only: find_snoc fi) simp
    moreover have "\<forall>y\<in>set (t # rs @ [x]). col y \<le> col t'"
      using mx False by force
    ultimately show ?thesis
      using f False by (intro exI [of _ t']) simp
  qed
qed

lemma idxmax_first_max:
  assumes "ts \<noteq> []"
  shows "\<exists>t'. idxmax col ts = Inr (ts_index t')
             \<and> find (\<lambda>x. col x = col t') ts = Some t'
             \<and> (\<forall>x\<in>set ts. col x \<le> col t')"
proof -
  from assms obtain t rs where ts: "ts = t # rs" by (cases ts) auto
  from fold_first_max [of col rs t] obtain t' where
    f: "fold (\<lambda>r (i, v). if col r > v then (ts_index r, col r) else (i, v)) rs
              (ts_index t, col t) = (ts_index t', col t')"
    and fi: "find (\<lambda>x. col x = col t') (t # rs) = Some t'"
    and mx: "\<forall>x\<in>set (t # rs). col x \<le> col t'"
    by blast
  have "idxmax col ts = Inr (ts_index t')"
    by (simp add: idxmax_def ts f)
  with fi mx ts show ?thesis by blast
qed

lemma find_label:
  "distinct (map ts_index ts) \<Longrightarrow> t \<in> set ts \<Longrightarrow> find (\<lambda>u. ts_index u = ts_index t) ts = Some t"
  by (induction ts) (auto simp: image_iff)

lemma find_first_sorted:
  "sorted_wrt (<) (map f ts) \<Longrightarrow> find P ts = Some t \<Longrightarrow> u \<in> set ts \<Longrightarrow> P u \<Longrightarrow> f t \<le> (f u :: int)"
  by (induction ts) (auto split: if_splits dest: less_imp_le)

lemma find_Some_mem: "find P ts = Some t \<Longrightarrow> t \<in> set ts \<and> P t"
  by (induction ts) (auto split: if_splits)

lemma peak_of_series:
  fixes col :: "ts_row \<Rightarrow> rat"
  assumes ne: "ts \<noteq> []"
    and lab: "distinct (map ts_index ts)"
    and asc: "sorted_wrt (<) (map ts_Date_reported ts)"
  shows "\<exists>t\<in>set ts. peak_value col ts = Some (col t)
           \<and> col t = Max (col ` set ts)
           \<and> (\<forall>u\<in>set ts. col u \<le> col t)
           \<and> peak_date col ts = Inr (ts_Date_reported t)
           \<and> (\<forall>u\<in>set ts. col u = col t \<longrightarrow> ts_Date_reported t \<le> ts_Date_reported u)"
proof -
  from idxmax_first_max [OF ne, of col] obtain t where
    ix: "idxmax col ts = Inr (ts_index t)"
    and fi: "find (\<lambda>x. col x = col t) ts = Some t"
    and mx: "\<forall>x\<in>set ts. col x \<le> col t"
    by blast
  from find_Some_mem [OF fi] have mem: "t \<in> set ts" by simp
  have "Max (col ` set ts) = col t"
    using mem mx by (intro Max_eqI) auto
  then have pv: "peak_value col ts = Some (col t)" and mxe: "col t = Max (col ` set ts)"
    by (simp_all add: peak_value_def series_max_Some [OF ne])
  have pd: "peak_date col ts = Inr (ts_Date_reported t)"
    by (simp add: peak_date_def ix loc_date_def find_label [OF lab mem])
  have first: "\<forall>u\<in>set ts. col u = col t \<longrightarrow> ts_Date_reported t \<le> ts_Date_reported u"
    using find_first_sorted [OF asc fi] by blast
  from mem pv mxe mx pd first show ?thesis by blast
qed

lemma labels_df_ts: "distinct (map ts_index (df_ts np w g))"
  by (simp add: df_ts_already_sorted labels_groupby_date_sum)

lemma dates_df_ts: "sorted_wrt (<) (map ts_Date_reported (df_ts np w g))"
  by (simp add: df_ts_already_sorted dates_groupby_date_sum strict_groupby_keys)

text \<open>
  C2. When the daily series is not empty, the overview computes both peaks without raising;
  the peak value of a metric is the maximum of that metric over the series, no row exceeds
  it, and the peak date is the date of a row that holds it, the earliest such date.
\<close>

theorem peak_correct:
  assumes "df_ts np w g \<noteq> []"
  shows "\<exists>ov. tab_overview np w g = Inr ov \<and> series ov = df_ts np w g
     \<and> (\<exists>t\<in>set (series ov).
           hosp_peak_value ov = Some (ts_hosp t)
         \<and> ts_hosp t = Max (ts_hosp ` set (series ov))
         \<and> (\<forall>u\<in>set (series ov). ts_hosp u \<le> ts_hosp t)
         \<and> hosp_peak_date ov = ts_Date_reported t
         \<and> (\<forall>u\<in>set (series ov). ts_hosp u = ts_hosp t
                \<longrightarrow> ts_Date_reported t \<le> ts_Date_reported u))
     \<and> (\<exists>t\<in>set (series ov).
           icu_peak_value ov = Some (ts_icu t)
         \<and> ts_icu t = Max (ts_icu ` set (series ov))
         \<and> (\<forall>u\<in>set (series ov). ts_icu u \<le> ts_icu t)
         \<and> icu_peak_date ov = ts_Date_reported t
         \<and> (\<forall>u\<in>set (series ov). ts_icu u = ts_icu t
                \<longrightarrow> ts_Date_reported t \<le> ts_Date_reported u))"
proof -
  let ?ts = "df_ts np w g"
  from peak_of_series [OF assms labels_df_ts dates_df_ts, of ts_hosp] obtain th where
    h: "th \<in> set ?ts" "peak_value ts_hosp ?ts = Some (ts_hosp th)"
       "ts_hosp th = Max (ts_hosp ` set ?ts)" "\<forall>u\<in>set ?ts. ts_hosp u \<le> ts_hosp th"
       "peak_date ts_hosp ?ts = Inr (ts_Date_reported th)"
       "\<forall>u\<in>set ?ts. ts_hosp u = ts_hosp th \<longrightarrow> ts_Date_reported th \<le> ts_Date_reported u"
    by blast
  from peak_of_series [OF assms labels_df_ts dates_df_ts, of ts_icu] obtain ti where
    i: "ti \<in> set ?ts" "peak_value ts_icu ?ts = Some (ts_icu ti)"
       "ts_icu ti = Max (ts_icu ` set ?ts)" "\<forall>u\<in>set ?ts. ts_icu u \<le> ts_icu ti"
       "peak_date ts_icu ?ts = Inr (ts_Date_reported ti)"
       "\<forall>u\<in>set ?ts. ts_icu u = ts_icu ti \<longrightarrow> ts_Date_reported ti \<le> ts_Date_reported u"
    by blast
  let ?ov = "\<lparr>series = ?ts,
               hosp_peak_value = Some (ts_hosp th), hosp_peak_date = ts_Date_reported th,
               icu_peak_value = Some (ts_icu ti), icu_peak_date = ts_Date_reported ti\<rparr>"
  have run: "tab_overview np w g = Inr ?ov"
    by (simp add: tab_overview_def Let_def h(2,5) i(2,5))
  have hp: "\<exists>t\<in>set (series ?ov).
           hosp_peak_value ?ov = Some (ts_hosp t)
         \<and> ts_hosp t = Max (ts_hosp ` set (series ?ov))
         \<and> (\<forall>u\<in>set (series ?ov). ts_hosp u \<le> ts_hosp t)
         \<and> hosp_peak_date ?ov = ts_Date_reported t
         \<and> (\<forall>u\<in>set (series ?ov). ts_hosp u = ts_hosp t
                \<longrightarrow> ts_Date_reported t \<le> ts_Date_reported u)"
    using h by (intro bexI [of _ th]) simp_all
  have ip: "\<exists>t\<in>set (series ?ov).
           icu_peak_value ?ov = Some (ts_icu t)
         \<and> ts_icu t = Max (ts_icu ` set (series ?ov))
         \<and> (\<forall>u\<in>set (series ?ov). ts_icu u \<le> ts_icu t)
         \<and> icu_peak_date ?ov = ts_Date_reported t
         \<and> (\<forall>u\<in>set (series ?ov). ts_icu u = ts_icu t
                \<longrightarrow> ts_Date_reported t \<le> ts_Date_reported u)"
    using i by (intro bexI [of _ ti]) simp_all
  from run hp ip show ?thesis
    by (intro exI [of _ ?ov] conjI) simp_all
qed

theorem peak_correct_witness:
  "df_ts stable_np Weekly peak_table \<noteq> []
 \<and> tab_overview stable_np Weekly peak_table =
     Inr \<lparr>series = [\<lparr>ts_index = 0, ts_Date_reported = 1, ts_hosp = 9, ts_icu = 0\<rparr>,
                    \<lparr>ts_index = 1, ts_Date_reported = 2, ts_hosp = 9, ts_icu = 2\<rparr>,
                    \<lparr>ts_index = 2, ts_Date_reported = 3, ts_hosp = 4, ts_icu = 2\<rparr>],
          hosp_peak_value = Some 9, hosp_peak_date = 1,
          icu_peak_value = Some 2, icu_peak_date = 2\<rparr>"
proof -
  have ne: "df_ts stable_np Weekly peak_table \<noteq> []" by code_simp
  have ev: "tab_overview stable_np Weekly peak_table =
     Inr \<lparr>series = [\<lparr>ts_index = 0, ts_Date_reported = 1, ts_hosp = 9, ts_icu = 0\<rparr>,
                    \<lparr>ts_index = 1, ts_Date_reported = 2, ts_hosp = 9, ts_icu = 2\<rparr>,
                    \<lparr>ts_index = 2, ts_Date_reported = 3, ts_hosp = 4, ts_icu = 2\<rparr>],
          hosp_peak_value = Some 9, hosp_peak_date = 1,
          icu_peak_value = Some 2, icu_peak_date = 2\<rparr>"
    by code_simp
  from peak_correct [OF ne] ne ev show ?thesis by blast
qed

section \<open>The country ranking\<close>

lemma countries_groupby_country_sum:
  "map rank_Country (groupby_country_sum sc) = groupby_keys Country sc"
  by (simp add: groupby_country_sum_def comp_def)

lemma set_df_rank: "set (df_rank np sc) = set (groupby_country_sum sc)"
  by (simp add: df_rank_def set_sort_values_Some)

lemma length_df_rank: "length (df_rank np sc) = length (groupby_keys Country sc)"
  by (simp add: df_rank_def length_sort_values_Some groupby_country_sum_def)

lemma total_df_rank:
  "r \<in> set (df_rank np sc) \<Longrightarrow>
   Total_hosp r = sum_skipna Covid_new_hospitalizations_last_7days
                    (get_group Country (rank_Country r) sc)"
  by (auto simp: set_df_rank groupby_country_sum_def)

lemma sorted_df_rank: "sorted_wrt (\<ge>) (map Total_hosp (df_rank np sc))"
  unfolding df_rank_def by (rule sorted_sort_values_desc)

lemma distinct_top: "distinct (map rank_Country (df_rank np sc))"
  by (simp only: df_rank_def distinct_map_sort_values_Some countries_groupby_country_sum
      distinct_groupby_keys)

lemma set_countries_df_rank:
  "set (map rank_Country (df_rank np sc)) = {c. \<exists>r\<in>set sc. Country r = Some c}"
proof -
  have "set (map rank_Country (df_rank np sc)) = set (map rank_Country (groupby_country_sum sc))"
    by (simp add: set_df_rank)
  then show ?thesis
    by (simp only: countries_groupby_country_sum set_groupby_keys)
qed

lemma card_countries:
  "card {c. \<exists>r\<in>set sc. Country r = Some c} = length (df_rank np sc)"
proof -
  have "card (set (map rank_Country (df_rank np sc))) = length (map rank_Country (df_rank np sc))"
    by (rule distinct_card) (rule distinct_top)
  then show ?thesis by (simp only: set_countries_df_rank length_map)
qed

lemma totals_of_countries:
  "map (\<lambda>c. sum_skipna Covid_new_hospitalizations_last_7days (get_group Country c sc))
       (map rank_Country (df_rank np sc))
   = map Total_hosp (df_rank np sc)"
  using total_df_rank [of _ np sc] by simp

text \<open>
  C4, as stated, fails. In \<open>tie_table\<close> country B is seen before country A and both total 5.
  \<open>groupby\<close> puts the countries in ascending name order before the sort, so a sort that keeps
  equal totals in their order, as the claim takes it, lists A before B.
\<close>

theorem ranking_first_seen_counterexample:
  "List.map_filter Country tie_table = [''B'', ''A'', ''A'', ''C'']
 \<and> map rank_Country (groupby_country_sum tie_table) = [''A'', ''B'', ''C'']
 \<and> df_rank stable_np tie_table =
     [\<lparr>rank_Country = ''C'', Total_hosp = 8\<rparr>,
      \<lparr>rank_Country = ''A'', Total_hosp = 5\<rparr>,
      \<lparr>rank_Country = ''B'', Total_hosp = 5\<rparr>]"
  by code_simp

text \<open>
  C4, amended. Whatever order the sort routine gives to equal keys, the ranking is in
  descending order of total, it has one row per country present in the scope, and the total
  of a row is the sum of the 7-day hospitalization column over the rows of its country.
  Nothing holds of the order of countries with equal totals: with the other routine the
  ranking of \<open>tie_table\<close> lists B before A.
\<close>

theorem ranking_order:
  "sorted_wrt (\<ge>) (map Total_hosp (df_rank np sc))
 \<and> distinct (map rank_Country (df_rank np sc))
 \<and> set (map rank_Country (df_rank np sc)) = {c. \<exists>r\<in>set sc. Country r = Some c}
 \<and> map Total_hosp (df_rank np sc)
     = map (\<lambda>c. sum_skipna Covid_new_hospitalizations_last_7days (get_group Country c sc))
           (map rank_Country (df_rank np sc))"
  by (simp only: sorted_df_rank distinct_top set_countries_df_rank totals_of_countries simp_thms)

theorem ranking_order_witness:
  "sorted_wrt (\<ge>) (map Total_hosp (df_rank stable_np tie_table))
 \<and> sorted_wrt (\<ge>) (map Total_hosp (df_rank reversing_np tie_table))
 \<and> map rank_Country (df_rank stable_np tie_table) = [''C'', ''A'', ''B'']
 \<and> map rank_Country (df_rank reversing_np tie_table) = [''C'', ''B'', ''A'']"
proof -
  have a: "map rank_Country (df_rank stable_np tie_table) = [''C'', ''A'', ''B'']"
    by code_simp
  have b: "map rank_Country (df_rank reversing_np tie_table) = [''C'', ''B'', ''A'']"
    by code_simp
  from ranking_order [of stable_np tie_table] ranking_order [of reversing_np tie_table] a b
  show ?thesis by (intro conjI) blast+
qed

text \<open>
  C6. The top-countries list has min(5, number of distinct countries present in the scope)
  entries, all different; when fewer than five countries are present, it holds all of them.
\<close>

theorem top5_cap:
  "length (top_countries np sc) = min 5 (card {c. \<exists>r\<in>set sc. Country r = Some c})
 \<and> distinct (top_countries np sc)
 \<and> (card {c. \<exists>r\<in>set sc. Country r = Some c} < 5
      \<longrightarrow> set (top_countries np sc) = {c. \<exists>r\<in>set sc. Country r = Some c})"
proof -
  have a: "length (top_countries np sc) = min 5 (card {c. \<exists>r\<in>set sc. Country r = Some c})"
    by (simp add: top_countries_def card_countries [of sc np] min.commute)
  have b: "distinct (top_countries np sc)"
    unfolding top_countries_def by (rule distinct_take) (rule distinct_top)
  have c: "card {c. \<exists>r\<in>set sc. Country r = Some c} < 5
      \<longrightarrow> set (top_countries np sc) = {c. \<exists>r\<in>set sc. Country r = Some c}"
  proof
    assume "card {c. \<exists>r\<in>set sc. Country r = Some c} < 5"
    then have "take 5 (map rank_Country (df_rank np sc)) = map rank_Country (df_rank np sc)"
      by (simp add: card_countries [of sc np])
    then show "set (top_countries np sc) = {c. \<exists>r\<in>set sc. Country r = Some c}"
      by (simp only: top_countries_def set_countries_df_rank)
  qed
  from a b c show ?thesis by blast
qed

theorem top5_cap_witness:
  "card {c. \<exists>r\<in>set tie_table. Country r = Some c} < 5
 \<and> top_countries stable_np tie_table = [''C'', ''A'', ''B'']
 \<and> {c. \<exists>r\<in>set tie_table. Country r = Some c} = {''C'', ''A'', ''B''}
 \<and> length (top_countries stable_np six_table) = 5"
proof -
  have e: "top_countries stable_np tie_table = [''C'', ''A'', ''B'']" by code_simp
  then have l: "length (top_countries stable_np tie_table) = 3" by simp
  from top5_cap [of stable_np tie_table]
  have m: "length (top_countries stable_np tie_table)
             = min 5 (card {c. \<exists>r\<in>set tie_table. Country r = Some c})"
    and imp: "card {c. \<exists>r\<in>set tie_table. Country r = Some c} < 5
      \<longrightarrow> set (top_countries stable_np tie_table)
            = {c. \<exists>r\<in>set tie_table. Country r = Some c}"
    by blast+
  from l m have c: "card {c. \<exists>r\<in>set tie_table. Country r = Some c} < 5"
    by linarith
  have "set (top_countries stable_np tie_table)
          = {c. \<exists>r\<in>set tie_table. Country r = Some c}"
    using imp c by (rule mp)
  then have s: "{c. \<exists>r\<in>set tie_table. Country r = Some c} = {''C'', ''A'', ''B''}"
    by (simp only: e list.set)
  have six: "length (top_countries stable_np six_table) = 5" by code_simp
  from c e s six show ?thesis by (intro conjI)
qed

section \<open>The regional summary\<close>

lemma set_df_reg:
  "set (df_reg np g)
   = set (map (\<lambda>r. \<lparr>reg_WHO_region = reg_WHO_region r, reg_Total_hosp = reg_Total_hosp r,
                  reg_Total_icu = reg_Total_icu r,
                  ICU_pct = (reg_Total_icu r / reg_Total_hosp r) * 100\<rparr>)
            (filter (\<lambda>r. reg_Total_hosp r > 0) (groupby_region_sum g)))"
  by (simp only: df_reg_def set_sort_values_Some)

lemma regions_groupby_region_sum:
  "map reg_WHO_region (groupby_region_sum g) = groupby_keys WHO_region g"
  by (simp add: groupby_region_sum_def comp_def)

lemma df_reg_row:
  assumes "r \<in> set (df_reg np g)"
  shows "0 < reg_Total_hosp r
     \<and> reg_Total_hosp r = sum_skipna Covid_new_hospitalizations_last_7days
                            (get_group WHO_region (reg_WHO_region r) g)
     \<and> reg_Total_icu r = sum_skipna Covid_new_icu_admissions_last_7days
                            (get_group WHO_region (reg_WHO_region r) g)
     \<and> ICU_pct r = reg_Total_icu r / reg_Total_hosp r * 100
     \<and> (\<exists>x\<in>set g. WHO_region x = Some (reg_WHO_region r))"
proof -
  from assms obtain q where q: "q \<in> set (groupby_region_sum g)" "0 < reg_Total_hosp q"
    and r: "r = \<lparr>reg_WHO_region = reg_WHO_region q, reg_Total_hosp = reg_Total_hosp q,
                  reg_Total_icu = reg_Total_icu q,
                  ICU_pct = (reg_Total_icu q / reg_Total_hosp q) * 100\<rparr>"
    by (auto simp: set_df_reg)
  from q(1) obtain k where k: "k \<in> set (groupby_keys WHO_region g)"
    and qk: "q = \<lparr>reg_WHO_region = k,
               reg_Total_hosp = sum_skipna Covid_new_hospitalizations_last_7days
                                  (get_group WHO_region k g),
               reg_Total_icu = sum_skipna Covid_new_icu_admissions_last_7days
                                 (get_group WHO_region k g)\<rparr>"
    by (auto simp: groupby_region_sum_def)
  from k have "\<exists>x\<in>set g. WHO_region x = Some k"
    by (simp add: set_groupby_keys)
  with q(2) r qk show ?thesis by simp
qed

lemma df_reg_regions:
  "set (map reg_WHO_region (df_reg np g))
   = {k. (\<exists>x\<in>set g. WHO_region x = Some k)
         \<and> 0 < sum_skipna Covid_new_hospitalizations_last_7days (get_group WHO_region k g)}"
proof -
  have "set (map reg_WHO_region (df_reg np g))
        = reg_WHO_region ` {q \<in> set (groupby_region_sum g). 0 < reg_Total_hosp q}"
    by (simp add: set_df_reg image_image)
  also have "\<dots> = {k \<in> set (groupby_keys WHO_region g).
                     0 < sum_skipna Covid_new_hospitalizations_last_7days
                           (get_group WHO_region k g)}"
    by (force simp: groupby_region_sum_def image_iff)
  finally show ?thesis
    by (simp add: set_groupby_keys)
qed

lemma df_reg_sorted: "sorted_wrt (\<ge>) (map reg_Total_hosp (df_reg np g))"
  unfolding df_reg_def by (rule sorted_sort_values_desc)

text \<open>
  C7. Every row of the regional summary has a strictly positive 7-day hospitalization total,
  its two totals are the sums of the 7-day columns over the rows of its region (missing
  values skipped), its \<open>ICU_pct\<close> is \<open>Total_icu / Total_hosp * 100\<close> (225 in the example, so not
  bounded by 100), the rows are in descending order of \<open>Total_hosp\<close>, and the regions listed
  are the region values present whose total is positive.
\<close>

theorem regional_icu_share:
  "(\<forall>r\<in>set (df_reg np g).
       0 < reg_Total_hosp r
     \<and> reg_Total_hosp r =
         (\<Sum>x\<leftarrow>filter (\<lambda>x. WHO_region x = Some (reg_WHO_region r)
                     \<and> Covid_new_hospitalizations_last_7days x \<noteq> None) g.
             the (Covid_new_hospitalizations_last_7days x))
     \<and> reg_Total_icu r =
         (\<Sum>x\<leftarrow>filter (\<lambda>x. WHO_region x = Some (reg_WHO_region r)
                     \<and> Covid_new_icu_admissions_last_7days x \<noteq> None) g.
             the (Covid_new_icu_admissions_last_7days x))
     \<and> ICU_pct r = reg_Total_icu r / reg_Total_hosp r * 100)
 \<and> sorted_wrt (\<ge>) (map reg_Total_hosp (df_reg np g))
 \<and> set (map reg_WHO_region (df_reg np g))
     = {k. (\<exists>x\<in>set g. WHO_region x = Some k)
           \<and> 0 < sum_skipna Covid_new_hospitalizations_last_7days (get_group WHO_region k g)}"
proof (intro conjI ballI)
  fix r assume r: "r \<in> set (df_reg np g)"
  note row = df_reg_row [OF r, unfolded sum_skipna_get_group]
  from row show "0 < reg_Total_hosp r" by blast
  from row show "reg_Total_hosp r =
         (\<Sum>x\<leftarrow>filter (\<lambda>x. WHO_region x = Some (reg_WHO_region r)
                     \<and> Covid_new_hospitalizations_last_7days x \<noteq> None) g.
             the (Covid_new_hospitalizations_last_7days x))" by blast
  from row show "reg_Total_icu r =
         (\<Sum>x\<leftarrow>filter (\<lambda>x. WHO_region x = Some (reg_WHO_region r)
                     \<and> Covid_new_icu_admissions_last_7days x \<noteq> None) g.
             the (Covid_new_icu_admissions_last_7days x))" by blast
  from row show "ICU_pct r = reg_Total_icu r / reg_Total_hosp r * 100" by blast
next
  show "sorted_wrt (\<ge>) (map reg_Total_hosp (df_reg np g))" by (rule df_reg_sorted)
next
  show "set (map reg_WHO_region (df_reg np g))
     = {k. (\<exists>x\<in>set g. WHO_region x = Some k)
           \<and> 0 < sum_skipna Covid_new_hospitalizations_last_7days (get_group WHO_region k g)}"
    by (rule df_reg_regions)
qed

theorem regional_icu_share_witness:
  "df_reg stable_np region_table =
     [\<lparr>reg_WHO_region = ''EUR'', reg_Total_hosp = 200, reg_Total_icu = 50, ICU_pct = 25\<rparr>,
      \<lparr>reg_WHO_region = ''OTHER'', reg_Total_hosp = 10, reg_Total_icu = 1, ICU_pct = 10\<rparr>,
      \<lparr>reg_WHO_region = ''AMR'', reg_Total_hosp = 4, reg_Total_icu = 9, ICU_pct = 225\<rparr>]
 \<and> sorted_wrt (\<ge>) (map reg_Total_hosp (df_reg stable_np region_table))"
proof -
  have "df_reg stable_np region_table =
     [\<lparr>reg_WHO_region = ''EUR'', reg_Total_hosp = 200, reg_Total_icu = 50, ICU_pct = 25\<rparr>,
      \<lparr>reg_WHO_region = ''OTHER'', reg_Total_hosp = 10, reg_Total_icu = 1, ICU_pct = 10\<rparr>,
      \<lparr>reg_WHO_region = ''AMR'', reg_Total_hosp = 4, reg_Total_icu = 9, ICU_pct = 225\<rparr>]"
    by code_simp
  with regional_icu_share [of stable_np region_table] show ?thesis by blast
qed

section \<open>Rows outside the six regions\<close>

lemma df_scope_region:
  "r \<in> set (df_scope (Some t) g) \<longleftrightarrow> r \<in> set g \<and> WHO_region r = Some t"
  by (auto simp: df_scope_def)

lemma region_map_codes:
  "v \<noteq> Top5_globally \<Longrightarrow>
   \<exists>t\<in>{''AMR'', ''EUR'', ''AFR'', ''EMR'', ''SEAR'', ''WPR''}. region_map v = Some t"
  by (cases v) (simp_all add: region_map_def)

lemma sum_skipna_append:
  "sum_skipna col (xs @ ys) = sum_skipna col xs + sum_skipna col ys"
  by (simp add: sum_skipna_def List.map_filter_def)

lemma sum_skipna_Cons:
  "sum_skipna col (x # xs) = (case col x of None \<Rightarrow> 0 | Some y \<Rightarrow> y) + sum_skipna col xs"
  by (cases "col x") (simp_all add: sum_skipna_def List.map_filter_def)

lemma sum_skipna_relabel:
  "(\<And>x. col (f x) = col x) \<Longrightarrow> sum_skipna col (map f xs) = sum_skipna col xs"
  by (simp add: sum_skipna_def List.map_filter_def filter_map comp_def)

lemma get_group_relabel:
  "(\<And>x. key (f x) = key x) \<Longrightarrow> get_group key k (map f xs) = map f (get_group key k xs)"
  by (simp add: get_group_def filter_map comp_def)

lemma groupby_keys_relabel:
  "(\<And>x. key (f x) = key x) \<Longrightarrow> groupby_keys key (map f xs) = groupby_keys key xs"
  by (simp add: groupby_keys_def List.map_filter_def filter_map comp_def)

lemma hosp_col_relabel: "hosp_col w (x\<lparr>WHO_region := z\<rparr>) = hosp_col w x"
  by (cases w) (simp_all add: hosp_col_def)

lemma icu_col_relabel: "icu_col w (x\<lparr>WHO_region := z\<rparr>) = icu_col w x"
  by (cases w) (simp_all add: icu_col_def)

lemma groupby_date_sum_relabel:
  "groupby_date_sum w (map (\<lambda>x. x\<lparr>WHO_region := f x\<rparr>) g) = groupby_date_sum w g"
  by (simp add: groupby_date_sum_def groupby_keys_relabel get_group_relabel
      sum_skipna_relabel hosp_col_relabel icu_col_relabel)

lemma insight_cards_relabel:
  "insight_cards w (map (\<lambda>x. x\<lparr>WHO_region := f x\<rparr>) g) = insight_cards w g"
  by (simp add: insight_cards_def groupby_date_sum_relabel sum_skipna_relabel)

lemma tab_overview_relabel:
  "tab_overview np w (map (\<lambda>x. x\<lparr>WHO_region := f x\<rparr>) g) = tab_overview np w g"
  by (simp add: tab_overview_def df_ts_def groupby_date_sum_relabel)

text \<open>
  C8, as stated, fails for the regional summary: \<open>groupby("WHO_region")\<close> makes a group of
  every region value present, so the row of \<open>region_table\<close> whose region is OTHER, none of
  the six codes, has its own row in \<open>df_reg\<close>.
\<close>

theorem unrecognized_region_counterexample:
  "WHO_region (mk_row (Some 2) (Some ''Z'') (Some ''OTHER'') (Some 10) (Some 1) None None)
     = Some ''OTHER''
 \<and> ''OTHER'' \<notin> {''AMR'', ''EUR'', ''AFR'', ''EMR'', ''SEAR'', ''WPR''}
 \<and> mk_row (Some 2) (Some ''Z'') (Some ''OTHER'') (Some 10) (Some 1) None None
     \<in> set region_table
 \<and> df_reg stable_np region_table =
     [\<lparr>reg_WHO_region = ''EUR'', reg_Total_hosp = 200, reg_Total_icu = 50, ICU_pct = 25\<rparr>,
      \<lparr>reg_WHO_region = ''OTHER'', reg_Total_hosp = 10, reg_Total_icu = 1, ICU_pct = 10\<rparr>,
      \<lparr>reg_WHO_region = ''AMR'', reg_Total_hosp = 4, reg_Total_icu = 9, ICU_pct = 225\<rparr>]"
  by code_simp

text \<open>
  C8, amended. A row whose region is not one of the six codes is in no regional scope of the
  country view, while the global scope is the whole subset; its 7-day values are added to
  the two totals, and the cards and the overview (series and peaks) do not change when the
  regions of the rows are rewritten, so they treat it as any other row. In the regional
  summary it is counted under its own region value whenever that value's total is positive.
\<close>

theorem unrecognized_region:
  assumes "WHO_region r \<notin> Some ` {''AMR'', ''EUR'', ''AFR'', ''EMR'', ''SEAR'', ''WPR''}"
  shows "(v \<noteq> Top5_globally \<longrightarrow> r \<notin> set (df_scope (region_map v) g))
   \<and> df_scope (region_map Top5_globally) g = g
   \<and> total_hosp_hist (insight_cards w (g1 @ r # g2))
       = total_hosp_hist (insight_cards w (g1 @ g2))
         + (case Covid_new_hospitalizations_last_7days r of None \<Rightarrow> 0 | Some y \<Rightarrow> y)
   \<and> total_icu_hist (insight_cards w (g1 @ r # g2))
       = total_icu_hist (insight_cards w (g1 @ g2))
         + (case Covid_new_icu_admissions_last_7days r of None \<Rightarrow> 0 | Some y \<Rightarrow> y)
   \<and> insight_cards w (map (\<lambda>x. x\<lparr>WHO_region := f x\<rparr>) g) = insight_cards w g
   \<and> tab_overview np w (map (\<lambda>x. x\<lparr>WHO_region := f x\<rparr>) g) = tab_overview np w g
   \<and> (\<forall>k. r \<in> set g \<and> WHO_region r = Some k
          \<and> 0 < sum_skipna Covid_new_hospitalizations_last_7days (get_group WHO_region k g)
        \<longrightarrow> k \<in> set (map reg_WHO_region (df_reg np g)))"
proof -
  have a: "v \<noteq> Top5_globally \<longrightarrow> r \<notin> set (df_scope (region_map v) g)"
  proof
    assume "v \<noteq> Top5_globally"
    from region_map_codes [OF this] obtain t where
      t: "t \<in> {''AMR'', ''EUR'', ''AFR'', ''EMR'', ''SEAR'', ''WPR''}" "region_map v = Some t"
      by blast
    from t(1) assms have "WHO_region r \<noteq> Some t" by blast
    then show "r \<notin> set (df_scope (region_map v) g)"
      by (simp add: t(2) df_scope_region)
  qed
  have b: "df_scope (region_map Top5_globally) g = g"
    by (simp add: region_map_def df_scope_def)
  have c: "total_hosp_hist (insight_cards w (g1 @ r # g2))
       = total_hosp_hist (insight_cards w (g1 @ g2))
         + (case Covid_new_hospitalizations_last_7days r of None \<Rightarrow> 0 | Some y \<Rightarrow> y)"
    by (simp add: insight_cards_def sum_skipna_append sum_skipna_Cons)
  have d: "total_icu_hist (insight_cards w (g1 @ r # g2))
       = total_icu_hist (insight_cards w (g1 @ g2))
         + (case Covid_new_icu_admissions_last_7days r of None \<Rightarrow> 0 | Some y \<Rightarrow> y)"
    by (simp add: insight_cards_def sum_skipna_append sum_skipna_Cons)
  have e: "\<forall>k. r \<in> set g \<and> WHO_region r = Some k
          \<and> 0 < sum_skipna Covid_new_hospitalizations_last_7days (get_group WHO_region k g)
        \<longrightarrow> k \<in> set (map reg_WHO_region (df_reg np g))"
    unfolding df_reg_regions by blast
  from a b c d e show ?thesis
    by (simp only: insight_cards_relabel tab_overview_relabel simp_thms)
qed

theorem unrecognized_region_witness:
  "WHO_region (mk_row (Some 2) (Some ''Z'') (Some ''OTHER'') (Some 10) (Some 1) None None)
     \<notin> Some ` {''AMR'', ''EUR'', ''AFR'', ''EMR'', ''SEAR'', ''WPR''}
 \<and> mk_row (Some 2) (Some ''Z'') (Some ''OTHER'') (Some 10) (Some 1) None None
     \<in> set region_table
 \<and> mk_row (Some 2) (Some ''Z'') (Some ''OTHER'') (Some 10) (Some 1) None None
     \<notin> set (df_scope (region_map Top5_EUR) region_table)
 \<and> total_hosp_hist (insight_cards Weekly
       [mk_row (Some 2) (Some ''Z'') (Some ''OTHER'') (Some 10) (Some 1) None None])
     = total_hosp_hist (insight_cards Weekly []) + 10"
proof -
  have h: "WHO_region (mk_row (Some 2) (Some ''Z'') (Some ''OTHER'') (Some 10) (Some 1) None None)
     \<notin> Some ` {''AMR'', ''EUR'', ''AFR'', ''EMR'', ''SEAR'', ''WPR''}"
    by (simp add: mk_row_def)
  have m: "mk_row (Some 2) (Some ''Z'') (Some ''OTHER'') (Some 10) (Some 1) None None
     \<in> set region_table"
    by (simp add: region_table_def)
  have c: "Covid_new_hospitalizations_last_7days
             (mk_row (Some 2) (Some ''Z'') (Some ''OTHER'') (Some 10) (Some 1) None None) = Some 10"
    by (simp add: mk_row_def)
  note u = unrecognized_region [OF h, where v = Top5_EUR and g = region_table
      and ?g1.0 = "[]" and ?g2.0 = "[]" and w = Weekly]
  from u have "mk_row (Some 2) (Some ''Z'') (Some ''OTHER'') (Some 10) (Some 1) None None
     \<notin> set (df_scope (region_map Top5_EUR) region_table)"
    by simp
  moreover from u c have "total_hosp_hist (insight_cards Weekly
       [mk_row (Some 2) (Some ''Z'') (Some ''OTHER'') (Some 10) (Some 1) None None])
     = total_hosp_hist (insight_cards Weekly []) + 10"
    by simp
  ultimately show ?thesis using h m by blast
qed


section \<open>The run and its warnings\<close>

lemma df_ts_nonempty:
  assumes "r \<in> set g" "Date_reported r = Some d"
  shows "df_ts np w g \<noteq> []"
proof -
  from assms have "d \<in> set (groupby_keys Date_reported g)"
    by (auto simp: set_groupby_keys)
  then have "groupby_keys Date_reported g \<noteq> []" by auto
  then have "map ts_Date_reported (groupby_date_sum w g) \<noteq> []"
    by (simp only: dates_groupby_date_sum not_False_eq_True)
  then show ?thesis by (simp add: df_ts_already_sorted)
qed

lemma tab_overview_returns:
  assumes "df_ts np w g \<noteq> []"
  shows "\<exists>ov. tab_overview np w g = Inr ov"
proof -
  from peak_of_series [OF assms labels_df_ts dates_df_ts, of ts_hosp]
  obtain dh where "peak_date ts_hosp (df_ts np w g) = Inr dh" by blast
  moreover from peak_of_series [OF assms labels_df_ts dates_df_ts, of ts_icu]
  obtain di where "peak_date ts_icu (df_ts np w g) = Inr di" by blast
  ultimately show ?thesis by (simp add: tab_overview_def Let_def)
qed

lemma tab_country_Region_warning:
  "tab_country np w v m g = Region_warning \<longleftrightarrow> df_scope (region_map v) g = []"
  by (simp add: tab_country_def Let_def)

lemma tab_country_Countries_warning:
  "tab_country np w v m g = Countries_warning
     \<longleftrightarrow> df_scope (region_map v) g \<noteq> []
         \<and> top_countries np (df_scope (region_map v) g) = []"
  by (simp add: tab_country_def Let_def)

lemma tab_country_Country_chart:
  "tab_country np w v m g = Country_chart tc ch
     \<longleftrightarrow> df_scope (region_map v) g \<noteq> [] \<and> tc \<noteq> []
        \<and> tc = top_countries np (df_scope (region_map v) g)
        \<and> ch = map (\<lambda>r. (r, y_col w m r)) (df_country_ts np (df_scope (region_map v) g))"
  by (auto simp: tab_country_def Let_def)

lemma max_date_None: "max_date df = None \<longleftrightarrow> min_date df = None"
  by (simp add: max_date_def min_date_def series_max_def series_min_def split: list.splits)

lemma min_date_None: "min_date df = None \<longleftrightarrow> (\<forall>r\<in>set df. Date_reported r = None)"
proof -
  have "min_date df = None \<longleftrightarrow> List.map_filter id (map Date_reported df) = []"
    by (simp add: min_date_def series_min_def split: list.splits)
  also have "\<dots> \<longleftrightarrow> (\<forall>r\<in>set df. Date_reported r = None)"
    by (auto simp: List.map_filter_def filter_empty_conv)
  finally show ?thesis .
qed

lemma date_input_raises:
  "min_date df = None \<Longrightarrow> date_input (min_date df) (max_date df) picked = Inl ValueError"
  by (simp add: date_input_def)

lemma date_input_returns:
  "min_date df \<noteq> None \<Longrightarrow> date_input (min_date df) (max_date df) picked = Inr picked"
  using max_date_None [of df] by (auto simp: date_input_def)

text \<open>
  What a run does, with \<open>g\<close> the date-filtered subset for the dates picked. When no date of
  the table parsed, the date widget raises and nothing below it runs. Otherwise an empty \<open>g\<close>
  stops the run after the warning of line 127, and a non-empty \<open>g\<close> lets it reach its end
  without raising, with the cards, the overview, the country view and the regional summary
  rendered. The country view alone carries a warning, exactly when the scope is empty or no
  country is ranked.
\<close>

lemma run_outcome:
  assumes "g = df_global df (fst (select_dates df picked)) (snd (select_dates df picked))"
  shows "(min_date df = None \<longrightarrow> run np w picked v m df = Raised ValueError)
   \<and> (min_date df \<noteq> None \<and> g = [] \<longrightarrow> run np w picked v m df = Stopped)
   \<and> (min_date df \<noteq> None \<and> g \<noteq> [] \<longrightarrow>
        (\<exists>ov. tab_overview np w g = Inr ov
            \<and> run np w picked v m df =
                Rendered \<lparr>page_cards = insight_cards w g, page_overview = ov,
                          page_country = tab_country np w v m g,
                          page_regions = df_reg np g\<rparr>))
   \<and> (tab_country np w v m g = Region_warning \<longleftrightarrow> df_scope (region_map v) g = [])
   \<and> (tab_country np w v m g = Countries_warning
        \<longleftrightarrow> df_scope (region_map v) g \<noteq> []
            \<and> top_countries np (df_scope (region_map v) g) = [])"
proof -
  have r: "min_date df = None \<longrightarrow> run np w picked v m df = Raised ValueError"
    by (simp add: run_def date_input_def)
  have a: "min_date df \<noteq> None \<and> g = [] \<longrightarrow> run np w picked v m df = Stopped"
    by (simp add: run_def date_input_returns assms case_prod_unfold Let_def)
  have b: "min_date df \<noteq> None \<and> g \<noteq> [] \<longrightarrow>
        (\<exists>ov. tab_overview np w g = Inr ov
            \<and> run np w picked v m df =
                Rendered \<lparr>page_cards = insight_cards w g, page_overview = ov,
                          page_country = tab_country np w v m g,
                          page_regions = df_reg np g\<rparr>)"
  proof
    assume h: "min_date df \<noteq> None \<and> g \<noteq> []"
    then obtain r where r: "r \<in> set g" by (cases g) auto
    with assms obtain d where "Date_reported r = Some d"
      using df_global_dates by blast
    from tab_overview_returns [OF df_ts_nonempty [OF r this]]
    obtain ov where ov: "tab_overview np w g = Inr ov" by blast
    have "run np w picked v m df =
            Rendered \<lparr>page_cards = insight_cards w g, page_overview = ov,
                      page_country = tab_country np w v m g, page_regions = df_reg np g\<rparr>"
      using h ov unfolding assms
      by (simp add: run_def date_input_returns case_prod_unfold Let_def)
    with ov show "\<exists>ov. tab_overview np w g = Inr ov
            \<and> run np w picked v m df =
                Rendered \<lparr>page_cards = insight_cards w g, page_overview = ov,
                          page_country = tab_country np w v m g,
                          page_regions = df_reg np g\<rparr>"
      by blast
  qed
  from r a b show ?thesis
    by (simp only: tab_country_Region_warning tab_country_Countries_warning simp_thms)
qed

text \<open>Runs of \<open>example_table\<close>, whose dates span days 1 to 9: no row lies in days 2 to 7,
  no row of days 1 to 9 is in region WPR, and the only row of day 9 has no country.\<close>

lemma run_examples:
  "run stable_np Monthly [2, 7] Top5_WPR Hospitalizations example_table = Stopped
 \<and> (case run stable_np Monthly [1, 9] Top5_WPR Hospitalizations example_table of
       Rendered p \<Rightarrow> page_country p = Region_warning
                     \<and> map reg_WHO_region (page_regions p) = [''EUR'', ''OTHER'']
                     \<and> total_hosp_hist (page_cards p) = 17
     | _ \<Rightarrow> False)
 \<and> (case run stable_np Weekly [9, 9] Top5_globally Hospitalizations example_table of
       Rendered p \<Rightarrow> page_country p = Countries_warning
                     \<and> map ts_Date_reported (series (page_overview p)) = [9]
     | _ \<Rightarrow> False)"
  by code_simp

text \<open>
  C9 holds of every table with a parseable date (\<open>run_outcome\<close>) and fails on the others:
  in \<open>no_date_table\<close> the date-filtered subset is empty for any bounds, yet the run ends in the
  exception of the date widget, before the guard of lines 126-128 could show its notice.
\<close>

theorem no_date_table_raises:
  "df_global no_date_table start_date end_date = []
 \<and> run np w picked v m no_date_table = Raised ValueError"
proof -
  have d: "\<forall>r\<in>set no_date_table. Date_reported r = None"
    by (simp add: no_date_table_def mk_row_def)
  then have "min_date no_date_table = None"
    by (simp only: min_date_None)
  then have "run np w picked v m no_date_table = Raised ValueError"
    by (simp add: run_def date_input_def)
  moreover have "df_global no_date_table start_date end_date = []"
    by (simp add: df_global_def no_date_table_def mk_row_def ts_ge_def)
  ultimately show ?thesis by simp
qed

section \<open>The window and the fixed 7-day basis\<close>

lemma top_countries_distinct: "distinct (top_countries np sc)"
  unfolding top_countries_def by (rule distinct_take) (rule distinct_top)

lemma top_countries_present:
  "set (top_countries np sc) \<subseteq> {c. \<exists>r\<in>set sc. Country r = Some c}"
proof -
  have "set (take 5 (map rank_Country (df_rank np sc))) \<subseteq> set (map rank_Country (df_rank np sc))"
    by (rule set_take_subset)
  then show ?thesis
    by (simp only: top_countries_def set_countries_df_rank)
qed

lemma totals_split:
  "sorted_wrt (\<ge>)
     (map (\<lambda>c. sum_skipna Covid_new_hospitalizations_last_7days (get_group Country c sc))
          (take 5 (map rank_Country (df_rank np sc)))
      @ map (\<lambda>c. sum_skipna Covid_new_hospitalizations_last_7days (get_group Country c sc))
          (drop 5 (map rank_Country (df_rank np sc))))"
proof -
  have "sorted_wrt (\<ge>)
          (map (\<lambda>c. sum_skipna Covid_new_hospitalizations_last_7days (get_group Country c sc))
               (map rank_Country (df_rank np sc)))"
    by (simp only: totals_of_countries sorted_df_rank)
  then show ?thesis
    by (simp only: map_append [symmetric] append_take_drop_id)
qed

lemma top_countries_sorted:
  "sorted_wrt (\<ge>)
     (map (\<lambda>c. sum_skipna Covid_new_hospitalizations_last_7days (get_group Country c sc))
          (top_countries np sc))"
  using totals_split [of sc np] by (simp add: top_countries_def sorted_wrt_append)

lemma top_countries_excluded:
  assumes "\<exists>r\<in>set sc. Country r = Some c" and "c \<notin> set (top_countries np sc)"
  shows "length (top_countries np sc) = 5
       \<and> (\<forall>c'\<in>set (top_countries np sc).
            sum_skipna Covid_new_hospitalizations_last_7days (get_group Country c sc)
              \<le> sum_skipna Covid_new_hospitalizations_last_7days (get_group Country c' sc))"
proof -
  let ?cs = "map rank_Country (df_rank np sc)"
  from assms(1) have "c \<in> set ?cs"
    by (simp only: set_countries_df_rank mem_Collect_eq)
  moreover have "set ?cs = set (take 5 ?cs) \<union> set (drop 5 ?cs)"
    by (simp only: set_append [symmetric] append_take_drop_id)
  moreover from assms(2) have "c \<notin> set (take 5 ?cs)"
    by (simp add: top_countries_def)
  ultimately have dr: "c \<in> set (drop 5 ?cs)"
    by blast
  then have "drop 5 ?cs \<noteq> []" by auto
  then have len: "length (top_countries np sc) = 5"
    by (simp add: top_countries_def)
  have "\<forall>c'\<in>set (top_countries np sc).
            sum_skipna Covid_new_hospitalizations_last_7days (get_group Country c sc)
              \<le> sum_skipna Covid_new_hospitalizations_last_7days (get_group Country c' sc)"
    using totals_split [of sc np] dr
    by (simp add: top_countries_def sorted_wrt_append)
  with len show ?thesis by simp
qed

text \<open>
  C5. For two window choices \<open>w\<close> and \<open>w'\<close> the country view shows the same warning or a chart
  of the same top countries in the same order. The top countries of a scope are different
  countries present in it, listed in descending order of the sum of their 7-day
  hospitalization column; a country present and left out means that five are listed and
  that its 7-day sum is at most that of each of them. Each total of the ranking is that
  7-day sum (missing values skipped).
\<close>

theorem fixed_ranking_basis:
  "(tab_country np w v m g = Region_warning \<longleftrightarrow> tab_country np w' v m g = Region_warning)
 \<and> (tab_country np w v m g = Countries_warning
      \<longleftrightarrow> tab_country np w' v m g = Countries_warning)
 \<and> (\<forall>tc ch. tab_country np w v m g = Country_chart tc ch \<longrightarrow>
        tc = top_countries np (df_scope (region_map v) g)
      \<and> (\<exists>ch'. tab_country np w' v m g = Country_chart tc ch'))
 \<and> distinct (top_countries np sc)
 \<and> set (top_countries np sc) \<subseteq> {c. \<exists>r\<in>set sc. Country r = Some c}
 \<and> sorted_wrt (\<ge>)
      (map (\<lambda>c. sum_skipna Covid_new_hospitalizations_last_7days (get_group Country c sc))
           (top_countries np sc))
 \<and> (\<forall>c. (\<exists>r\<in>set sc. Country r = Some c) \<and> c \<notin> set (top_countries np sc) \<longrightarrow>
        length (top_countries np sc) = 5
      \<and> (\<forall>c'\<in>set (top_countries np sc).
            sum_skipna Covid_new_hospitalizations_last_7days (get_group Country c sc)
              \<le> sum_skipna Covid_new_hospitalizations_last_7days (get_group Country c' sc)))
 \<and> (\<forall>r\<in>set (df_rank np sc).
      Total_hosp r = (\<Sum>x\<leftarrow>filter (\<lambda>x. Country x = Some (rank_Country r)
                          \<and> Covid_new_hospitalizations_last_7days x \<noteq> None) sc.
                        the (Covid_new_hospitalizations_last_7days x)))"
proof -
  have a: "\<forall>r\<in>set (df_rank np sc).
      Total_hosp r = (\<Sum>x\<leftarrow>filter (\<lambda>x. Country x = Some (rank_Country r)
                          \<and> Covid_new_hospitalizations_last_7days x \<noteq> None) sc.
                        the (Covid_new_hospitalizations_last_7days x))"
    using total_df_rank [of _ np sc] unfolding sum_skipna_get_group by blast
  have b: "\<forall>tc ch. tab_country np w v m g = Country_chart tc ch \<longrightarrow>
        tc = top_countries np (df_scope (region_map v) g)
      \<and> (\<exists>ch'. tab_country np w' v m g = Country_chart tc ch')"
    by (simp add: tab_country_Country_chart)
  have c: "\<forall>c. (\<exists>r\<in>set sc. Country r = Some c) \<and> c \<notin> set (top_countries np sc) \<longrightarrow>
        length (top_countries np sc) = 5
      \<and> (\<forall>c'\<in>set (top_countries np sc).
            sum_skipna Covid_new_hospitalizations_last_7days (get_group Country c sc)
              \<le> sum_skipna Covid_new_hospitalizations_last_7days (get_group Country c' sc))"
    using top_countries_excluded [of sc _ np] by blast
  have d: "(tab_country np w v m g = Region_warning
              \<longleftrightarrow> tab_country np w' v m g = Region_warning)
         \<and> (tab_country np w v m g = Countries_warning
              \<longleftrightarrow> tab_country np w' v m g = Countries_warning)"
    by (simp only: tab_country_Region_warning tab_country_Countries_warning simp_thms)
  from a b c d top_countries_distinct [of np sc] top_countries_present [of np sc]
    top_countries_sorted [of sc np]
  show ?thesis by (intro conjI) blast+
qed

theorem fixed_ranking_basis_witness:
  "top_countries stable_np six_table = [''A'', ''B'', ''D'', ''C'', ''E'']
 \<and> map (\<lambda>c. sum_skipna Covid_new_hospitalizations_last_7days (get_group Country c six_table))
        [''A'', ''B'', ''D'', ''C'', ''E'', ''F''] = [9, 7, 7, 4, 3, 1]
 \<and> map (\<lambda>c. sum_skipna Covid_new_hospitalizations_last_28days (get_group Country c six_table))
        [''A'', ''B'', ''D'', ''C'', ''E'', ''F''] = [40, 50, 70, 60, 80, 90]
 \<and> length (top_countries stable_np six_table) = 5
 \<and> (\<exists>ch ch'. tab_country stable_np Weekly Top5_globally Hospitalizations six_table
                = Country_chart [''A'', ''B'', ''D'', ''C'', ''E''] ch
         \<and> tab_country stable_np Monthly Top5_globally Hospitalizations six_table
                = Country_chart [''A'', ''B'', ''D'', ''C'', ''E''] ch'
         \<and> ch \<noteq> ch')"
proof -
  have t: "top_countries stable_np six_table = [''A'', ''B'', ''D'', ''C'', ''E'']"
    by code_simp
  have s7: "map (\<lambda>c. sum_skipna Covid_new_hospitalizations_last_7days
                      (get_group Country c six_table))
        [''A'', ''B'', ''D'', ''C'', ''E'', ''F''] = [9, 7, 7, 4, 3, 1]"
    by code_simp
  have s28: "map (\<lambda>c. sum_skipna Covid_new_hospitalizations_last_28days
                       (get_group Country c six_table))
        [''A'', ''B'', ''D'', ''C'', ''E'', ''F''] = [40, 50, 70, 60, 80, 90]"
    by code_simp
  have f: "(\<exists>r\<in>set six_table. Country r = Some ''F'')
           \<and> ''F'' \<notin> set (top_countries stable_np six_table)"
    by (simp add: t) (simp add: six_table_def mk_row_def)
  note inst = fixed_ranking_basis [where np = stable_np and w = Weekly and w' = Monthly
      and v = Top5_globally and m = Hospitalizations and g = six_table and sc = six_table]
  from inst f have l: "length (top_countries stable_np six_table) = 5"
    by blast
  have e: "tab_country stable_np Weekly Top5_globally Hospitalizations six_table
           = Country_chart [''A'', ''B'', ''D'', ''C'', ''E'']
               (map (\<lambda>r. (r, y_col Weekly Hospitalizations r))
                    (df_country_ts stable_np (df_scope (region_map Top5_globally) six_table)))"
    by code_simp
  from inst e
  obtain ch' where m: "tab_country stable_np Monthly Top5_globally Hospitalizations six_table
                        = Country_chart [''A'', ''B'', ''D'', ''C'', ''E''] ch'"
    by blast
  have d: "tab_country stable_np Weekly Top5_globally Hospitalizations six_table
           \<noteq> tab_country stable_np Monthly Top5_globally Hospitalizations six_table"
    by code_simp
  from e m d have "\<exists>ch ch'. tab_country stable_np Weekly Top5_globally Hospitalizations six_table
                = Country_chart [''A'', ''B'', ''D'', ''C'', ''E''] ch
         \<and> tab_country stable_np Monthly Top5_globally Hospitalizations six_table
                = Country_chart [''A'', ''B'', ''D'', ''C'', ''E''] ch'
         \<and> ch \<noteq> ch'"
    by auto
  with t s7 s28 l show ?thesis by (intro conjI)
qed

section \<open>The totals and peaks of the cards\<close>

lemma map_enumerate_snd: "map (\<lambda>x. F (snd x)) (enumerate n ks) = map F ks"
  by (induction ks arbitrary: n) auto

lemma hosp_groupby_date_sum:
  "map ts_hosp (groupby_date_sum w g)
   = map (\<lambda>d. sum_skipna (hosp_col w) (get_group Date_reported d g))
         (groupby_keys Date_reported g)"
proof -
  have "map ts_hosp (groupby_date_sum w g)
        = map (\<lambda>x. sum_skipna (hosp_col w) (get_group Date_reported (snd x) g))
              (enumerate 0 (groupby_keys Date_reported g))"
    by (simp add: groupby_date_sum_def case_prod_unfold comp_def)
  also have "\<dots> = map (\<lambda>d. sum_skipna (hosp_col w) (get_group Date_reported d g))
                      (groupby_keys Date_reported g)"
    by (rule map_enumerate_snd)
  finally show ?thesis .
qed

lemma icu_groupby_date_sum:
  "map ts_icu (groupby_date_sum w g)
   = map (\<lambda>d. sum_skipna (icu_col w) (get_group Date_reported d g))
         (groupby_keys Date_reported g)"
proof -
  have "map ts_icu (groupby_date_sum w g)
        = map (\<lambda>x. sum_skipna (icu_col w) (get_group Date_reported (snd x) g))
              (enumerate 0 (groupby_keys Date_reported g))"
    by (simp add: groupby_date_sum_def case_prod_unfold comp_def)
  also have "\<dots> = map (\<lambda>d. sum_skipna (icu_col w) (get_group Date_reported d g))
                      (groupby_keys Date_reported g)"
    by (rule map_enumerate_snd)
  finally show ?thesis .
qed

lemma peak_hosp_cards:
  assumes "df_ts np w g \<noteq> []"
  shows "peak_hosp (insight_cards w g)
         = Some (Max ((\<lambda>d. sum_skipna (hosp_col w) (get_group Date_reported d g))
                        ` {d. \<exists>r\<in>set g. Date_reported r = Some d}))"
proof -
  from assms have ne: "groupby_date_sum w g \<noteq> []"
    by (simp add: df_ts_already_sorted)
  have "ts_hosp ` set (groupby_date_sum w g) = set (map ts_hosp (groupby_date_sum w g))"
    by simp
  also have "\<dots> = (\<lambda>d. sum_skipna (hosp_col w) (get_group Date_reported d g))
                        ` {d. \<exists>r\<in>set g. Date_reported r = Some d}"
    by (simp only: hosp_groupby_date_sum set_map set_groupby_keys)
  finally show ?thesis
    by (simp add: insight_cards_def peak_value_def series_max_Some [OF ne])
qed

lemma peak_icu_cards:
  assumes "df_ts np w g \<noteq> []"
  shows "peak_icu (insight_cards w g)
         = Some (Max ((\<lambda>d. sum_skipna (icu_col w) (get_group Date_reported d g))
                        ` {d. \<exists>r\<in>set g. Date_reported r = Some d}))"
proof -
  from assms have ne: "groupby_date_sum w g \<noteq> []"
    by (simp add: df_ts_already_sorted)
  have "ts_icu ` set (groupby_date_sum w g) = set (map ts_icu (groupby_date_sum w g))"
    by simp
  also have "\<dots> = (\<lambda>d. sum_skipna (icu_col w) (get_group Date_reported d g))
                        ` {d. \<exists>r\<in>set g. Date_reported r = Some d}"
    by (simp only: icu_groupby_date_sum set_map set_groupby_keys)
  finally show ?thesis
    by (simp add: insight_cards_def peak_value_def series_max_Some [OF ne])
qed

text \<open>
  C10. For either window the two totals of the cards are the sums of the 7-day columns over
  the subset, so they are equal for Weekly and Monthly; the two peaks are the largest daily
  sums of the chosen window's columns.
\<close>

theorem totals_fixed_basis:
  "total_hosp_hist (insight_cards w g)
     = (\<Sum>r\<leftarrow>filter (\<lambda>r. Covid_new_hospitalizations_last_7days r \<noteq> None) g.
          the (Covid_new_hospitalizations_last_7days r))
 \<and> total_icu_hist (insight_cards w g)
     = (\<Sum>r\<leftarrow>filter (\<lambda>r. Covid_new_icu_admissions_last_7days r \<noteq> None) g.
          the (Covid_new_icu_admissions_last_7days r))
 \<and> total_hosp_hist (insight_cards Weekly g) = total_hosp_hist (insight_cards Monthly g)
 \<and> total_icu_hist (insight_cards Weekly g) = total_icu_hist (insight_cards Monthly g)
 \<and> (df_ts np w g \<noteq> [] \<longrightarrow>
      peak_hosp (insight_cards w g)
        = Some (Max ((\<lambda>d. sum_skipna (hosp_col w) (get_group Date_reported d g))
                       ` {d. \<exists>r\<in>set g. Date_reported r = Some d}))
    \<and> peak_icu (insight_cards w g)
        = Some (Max ((\<lambda>d. sum_skipna (icu_col w) (get_group Date_reported d g))
                       ` {d. \<exists>r\<in>set g. Date_reported r = Some d})))"
proof -
  have t: "\<And>w. total_hosp_hist (insight_cards w g)
     = (\<Sum>r\<leftarrow>filter (\<lambda>r. Covid_new_hospitalizations_last_7days r \<noteq> None) g.
          the (Covid_new_hospitalizations_last_7days r))"
    by (simp only: insight_cards_def cards.simps sum_skipna_present)
  have i: "\<And>w. total_icu_hist (insight_cards w g)
     = (\<Sum>r\<leftarrow>filter (\<lambda>r. Covid_new_icu_admissions_last_7days r \<noteq> None) g.
          the (Covid_new_icu_admissions_last_7days r))"
    by (simp only: insight_cards_def cards.simps sum_skipna_present)
  have p: "df_ts np w g \<noteq> [] \<longrightarrow>
      peak_hosp (insight_cards w g)
        = Some (Max ((\<lambda>d. sum_skipna (hosp_col w) (get_group Date_reported d g))
                       ` {d. \<exists>r\<in>set g. Date_reported r = Some d}))
    \<and> peak_icu (insight_cards w g)
        = Some (Max ((\<lambda>d. sum_skipna (icu_col w) (get_group Date_reported d g))
                       ` {d. \<exists>r\<in>set g. Date_reported r = Some d}))"
    using peak_hosp_cards [of np w g] peak_icu_cards [of np w g] by blast
  from t [of w] i [of w] t [of Weekly] t [of Monthly] i [of Weekly] i [of Monthly] p
  show ?thesis by (intro conjI) simp_all
qed

theorem totals_fixed_basis_witness:
  "df_ts stable_np Weekly (df_global example_table (Some 1) (Some 9)) \<noteq> []
 \<and> df_ts stable_np Monthly (df_global example_table (Some 1) (Some 9)) \<noteq> []
 \<and> insight_cards Weekly (df_global example_table (Some 1) (Some 9))
     = \<lparr>total_hosp_hist = 17, total_icu_hist = 12, peak_hosp = Some 10, peak_icu = Some 9\<rparr>
 \<and> insight_cards Monthly (df_global example_table (Some 1) (Some 9))
     = \<lparr>total_hosp_hist = 17, total_icu_hist = 12, peak_hosp = Some 23, peak_icu = Some 4\<rparr>
 \<and> Max ((\<lambda>d. sum_skipna (hosp_col Monthly)
                  (get_group Date_reported d (df_global example_table (Some 1) (Some 9))))
           ` {d. \<exists>r\<in>set (df_global example_table (Some 1) (Some 9)). Date_reported r = Some d})
     = 23"
proof -
  let ?g = "df_global example_table (Some 1) (Some 9)"
  have n1: "df_ts stable_np Weekly ?g \<noteq> []" by code_simp
  have n2: "df_ts stable_np Monthly ?g \<noteq> []" by code_simp
  have c1: "insight_cards Weekly ?g
     = \<lparr>total_hosp_hist = 17, total_icu_hist = 12, peak_hosp = Some 10, peak_icu = Some 9\<rparr>"
    by code_simp
  have c2: "insight_cards Monthly ?g
     = \<lparr>total_hosp_hist = 17, total_icu_hist = 12, peak_hosp = Some 23, peak_icu = Some 4\<rparr>"
    by code_simp
  from totals_fixed_basis [where w = Monthly and g = ?g and np = stable_np] n2
  have "peak_hosp (insight_cards Monthly ?g)
        = Some (Max ((\<lambda>d. sum_skipna (hosp_col Monthly) (get_group Date_reported d ?g))
                       ` {d. \<exists>r\<in>set ?g. Date_reported r = Some d}))"
    by blast
  with c2 have "Max ((\<lambda>d. sum_skipna (hosp_col Monthly) (get_group Date_reported d ?g))
                       ` {d. \<exists>r\<in>set ?g. Date_reported r = Some d}) = 23"
    by simp
  with n1 n2 c1 c2 show ?thesis by (intro conjI)
qed

end
